theory Spec2Isabelle
  imports Complex_Main "HOL-Library.AList"
begin

section \<open>Data model (shared/schema.ts)\<close>

text \<open>
  Timestamps are JavaScript \<open>Date\<close> values, modelled by their millisecond count.
  Every storage or service operation that evaluates \<open>new Date()\<close> takes the clock
  reading as its parameter \<open>now\<close>; one call reads the clock once.
  The integer column \<open>cash\<close> is an \<open>int\<close>; counters of the statistics row are
  \<open>nat\<close>. A nullable column is an \<open>option\<close>.
\<close>

type_synonym time = int

text \<open>
  A JavaScript string is a sequence of UTF-16 code units. The texts the message
  filter works on (message content, blocked words) are modelled so; \<open>units\<close> gives
  the code units of an ASCII literal. Identifiers and names, which are only stored,
  compared and passed on, are \<open>string\<close>.
\<close>

type_synonym jsstring = "nat list"

definition units :: "string \<Rightarrow> jsstring" where
  "units s = map of_char s"

record DiscordMember =
  mid :: string
  username :: string
  displayName :: string
  discriminator :: "string option"
  avatar :: "string option"
  status :: string
  role :: string
  roles :: "string list"
  cash :: int
  joinedServerAt :: "time option"
  joinedDiscordAt :: "time option"
  joinedAt :: "time option"
  lastSeen :: "time option"

text \<open>
  \<open>InsertMember\<close>: the insert schema omits \<open>joinedAt\<close> and \<open>lastSeen\<close>; every column
  with a default or without \<open>notNull\<close> may be left out by the caller (\<open>None\<close>).
\<close>

record InsertMember =
  ins_id :: string
  ins_username :: string
  ins_displayName :: string
  ins_discriminator :: "string option"
  ins_avatar :: "string option"
  ins_status :: "string option"
  ins_role :: "string option"
  ins_roles :: "string list option"
  ins_cash :: "int option"
  ins_joinedServerAt :: "time option"
  ins_joinedDiscordAt :: "time option"

record KickLog =
  log_id :: string
  memberId :: string
  kickedBy :: string
  reason :: "string option"
  kickedAt :: "time option"

record InsertKickLog =
  ins_memberId :: string
  ins_kickedBy :: string
  ins_reason :: "string option"

record ServerStats =
  stats_id :: string
  totalMembers :: nat
  onlineMembers :: nat
  activeToday :: nat
  recentKicks :: nat
  lastUpdated :: "time option"

record BlockedWord =
  bw_id :: string
  word :: jsstring
  createdAt :: "time option"
  createdBy :: string

record InsertBlockedWord =
  ins_word :: jsstring
  ins_createdBy :: string

text \<open>
  A field assignment of a \<open>Partial<DiscordMember>\<close>; an update object is the list of
  its assignments, applied in order by the object spread.
\<close>

datatype MemberUpdate =
    SetId string
  | SetUsername string
  | SetDisplayName string
  | SetDiscriminator "string option"
  | SetAvatar "string option"
  | SetStatus string
  | SetRole string
  | SetRoles "string list"
  | SetCash int
  | SetJoinedServerAt "time option"
  | SetJoinedDiscordAt "time option"
  | SetJoinedAt "time option"
  | SetLastSeen "time option"

fun applyUpdate :: "MemberUpdate \<Rightarrow> DiscordMember \<Rightarrow> DiscordMember" where
  "applyUpdate (SetId v) m = m\<lparr>mid := v\<rparr>"
| "applyUpdate (SetUsername v) m = m\<lparr>username := v\<rparr>"
| "applyUpdate (SetDisplayName v) m = m\<lparr>displayName := v\<rparr>"
| "applyUpdate (SetDiscriminator v) m = m\<lparr>discriminator := v\<rparr>"
| "applyUpdate (SetAvatar v) m = m\<lparr>avatar := v\<rparr>"
| "applyUpdate (SetStatus v) m = m\<lparr>status := v\<rparr>"
| "applyUpdate (SetRole v) m = m\<lparr>role := v\<rparr>"
| "applyUpdate (SetRoles v) m = m\<lparr>roles := v\<rparr>"
| "applyUpdate (SetCash v) m = m\<lparr>cash := v\<rparr>"
| "applyUpdate (SetJoinedServerAt v) m = m\<lparr>joinedServerAt := v\<rparr>"
| "applyUpdate (SetJoinedDiscordAt v) m = m\<lparr>joinedDiscordAt := v\<rparr>"
| "applyUpdate (SetJoinedAt v) m = m\<lparr>joinedAt := v\<rparr>"
| "applyUpdate (SetLastSeen v) m = m\<lparr>lastSeen := v\<rparr>"

section \<open>MemStorage (server/storage.ts)\<close>

text \<open>
  The in-memory implementation of \<open>IStorage\<close>. The module exports
  \<open>storage = new DatabaseStorage()\<close>, so the service and the routes run on the class
  of the next section; this class is modelled for the properties stated of it.

  A JavaScript \<open>Map\<close> keeps its entries in insertion order: \<open>set\<close> on a present key
  replaces the value in place, on an absent key appends; \<open>delete\<close> removes the entry.
  These are \<open>AList.update\<close> and \<open>AList.delete\<close> on an association list, \<open>get\<close> is
  \<open>map_of\<close>, and \<open>Array.from(m.values())\<close> is \<open>map snd\<close>.
\<close>

record MemStorage =
  members :: "(string \<times> DiscordMember) list"
  kickLogs :: "(string \<times> KickLog) list"
  blockedWords :: "(string \<times> BlockedWord) list"
  stats :: ServerStats

text \<open>The constructor: three empty maps and a zeroed statistics row.\<close>

definition newMemStorage :: "time \<Rightarrow> MemStorage" where
  "newMemStorage now =
     \<lparr>members = [], kickLogs = [], blockedWords = [],
      stats = \<lparr>stats_id = ''main'', totalMembers = 0, onlineMembers = 0,
               activeToday = 0, recentKicks = 0, lastUpdated = Some now\<rparr>\<rparr>"

text \<open>
  \<open>dayAgo\<close>: \<open>new Date()\<close> moved back one calendar day by \<open>setDate(getDate() - 1)\<close>,
  which is 24 hours in a time zone without a clock change on that day.
\<close>

definition dayAgo :: "time \<Rightarrow> time" where
  "dayAgo now = now - 86400000"

text \<open>The filter \<open>m.lastSeen && m.lastSeen > dayAgo\<close> of \<open>updateMemberCount\<close>.\<close>

definition seenSince :: "time \<Rightarrow> DiscordMember \<Rightarrow> bool" where
  "seenSince t m = (case lastSeen m of None \<Rightarrow> False | Some l \<Rightarrow> l > t)"

definition kickedSince :: "time \<Rightarrow> KickLog \<Rightarrow> bool" where
  "kickedSince t l = (case kickedAt l of None \<Rightarrow> False | Some k \<Rightarrow> k > t)"

definition getAllMembers :: "MemStorage \<Rightarrow> DiscordMember list" where
  "getAllMembers s = map snd (members s)"

definition getMember :: "string \<Rightarrow> MemStorage \<Rightarrow> DiscordMember option" where
  "getMember i s = map_of (members s) i"

definition updateMemberCount :: "time \<Rightarrow> MemStorage \<Rightarrow> MemStorage" where
  "updateMemberCount now s =
     (let ms = map snd (members s) in
      s\<lparr>stats := (stats s)
          \<lparr>totalMembers := length ms,
           onlineMembers := length (filter (\<lambda>m. status m = ''online'') ms),
           activeToday := length (filter (seenSince (dayAgo now)) ms)\<rparr>\<rparr>)"

text \<open>
  JavaScript \<open>x || d\<close>: \<open>d\<close> replaces an absent value and a falsy one (the empty
  string, the number 0). Arrays and dates are never falsy.
\<close>

definition strOr :: "string option \<Rightarrow> string \<Rightarrow> string" where
  "strOr x d = (case x of None \<Rightarrow> d | Some v \<Rightarrow> if v = [] then d else v)"

definition strOrNull :: "string option \<Rightarrow> string option" where
  "strOrNull x = (case x of None \<Rightarrow> None | Some v \<Rightarrow> if v = [] then None else Some v)"

definition newMember :: "InsertMember \<Rightarrow> time \<Rightarrow> DiscordMember" where
  "newMember im now =
     \<lparr>mid = ins_id im,
      username = ins_username im,
      displayName = ins_displayName im,
      discriminator = strOrNull (ins_discriminator im),
      avatar = strOrNull (ins_avatar im),
      status = strOr (ins_status im) ''offline'',
      role = strOr (ins_role im) ''Member'',
      roles = (case ins_roles im of None \<Rightarrow> [] | Some r \<Rightarrow> r),
      cash = (case ins_cash im of None \<Rightarrow> 0 | Some c \<Rightarrow> c),
      joinedServerAt = (case ins_joinedServerAt im of None \<Rightarrow> Some now | Some t \<Rightarrow> Some t),
      joinedDiscordAt = ins_joinedDiscordAt im,
      joinedAt = Some now,
      lastSeen = Some now\<rparr>"

definition createMember :: "InsertMember \<Rightarrow> time \<Rightarrow> MemStorage \<Rightarrow> DiscordMember \<times> MemStorage" where
  "createMember im now s =
     (let member = newMember im now in
      (member, updateMemberCount now (s\<lparr>members := AList.update (mid member) member (members s)\<rparr>)))"

definition updateMember ::
  "string \<Rightarrow> MemberUpdate list \<Rightarrow> time \<Rightarrow> MemStorage \<Rightarrow> DiscordMember option \<times> MemStorage" where
  "updateMember i updates now s =
     (case map_of (members s) i of
        None \<Rightarrow> (None, s)
      | Some member \<Rightarrow>
          (let updatedMember = (fold applyUpdate updates member)\<lparr>lastSeen := Some now\<rparr> in
           (Some updatedMember,
            updateMemberCount now (s\<lparr>members := AList.update i updatedMember (members s)\<rparr>))))"

definition deleteMember :: "string \<Rightarrow> time \<Rightarrow> MemStorage \<Rightarrow> bool \<times> MemStorage" where
  "deleteMember i now s =
     (let deleted = (i \<in> fst ` set (members s)) in
      if deleted
      then (True, updateMemberCount now (s\<lparr>members := AList.delete i (members s)\<rparr>))
      else (False, s))"

text \<open>\<open>randomUUID()\<close> is supplied by the caller as \<open>uuid\<close>.\<close>

definition createKickLog ::
  "string \<Rightarrow> InsertKickLog \<Rightarrow> time \<Rightarrow> MemStorage \<Rightarrow> KickLog \<times> MemStorage" where
  "createKickLog uuid il now s =
     (let log = \<lparr>log_id = uuid, memberId = ins_memberId il, kickedBy = ins_kickedBy il,
                 reason = strOrNull (ins_reason il), kickedAt = Some now\<rparr>;
          logs = AList.update uuid log (kickLogs s);
          recent = length (filter (kickedSince (dayAgo now)) (map snd logs))
      in (log, s\<lparr>kickLogs := logs, stats := (stats s)\<lparr>recentKicks := recent\<rparr>\<rparr>))"

definition getStats :: "MemStorage \<Rightarrow> ServerStats" where
  "getStats s = stats s"

text \<open>
  A field assignment of a \<open>Partial<InsertStats>\<close>; \<open>updateStats\<close> spreads the
  assignments over the row and stamps \<open>lastUpdated\<close>.
\<close>

datatype StatsUpdate =
    SetTotalMembers nat
  | SetOnlineMembers nat
  | SetActiveToday nat
  | SetRecentKicks nat

fun applyStatsUpdate :: "StatsUpdate \<Rightarrow> ServerStats \<Rightarrow> ServerStats" where
  "applyStatsUpdate (SetTotalMembers n) st = st\<lparr>totalMembers := n\<rparr>"
| "applyStatsUpdate (SetOnlineMembers n) st = st\<lparr>onlineMembers := n\<rparr>"
| "applyStatsUpdate (SetActiveToday n) st = st\<lparr>activeToday := n\<rparr>"
| "applyStatsUpdate (SetRecentKicks n) st = st\<lparr>recentKicks := n\<rparr>"

definition updateStats :: "StatsUpdate list \<Rightarrow> time \<Rightarrow> MemStorage \<Rightarrow> ServerStats \<times> MemStorage" where
  "updateStats updates now s =
     (let st = (fold applyStatsUpdate updates (stats s))\<lparr>lastUpdated := Some now\<rparr>
      in (st, s\<lparr>stats := st\<rparr>))"

definition updateMemberCash ::
  "string \<Rightarrow> int \<Rightarrow> time \<Rightarrow> MemStorage \<Rightarrow> DiscordMember option \<times> MemStorage" where
  "updateMemberCash i amount now s =
     (case map_of (members s) i of
        None \<Rightarrow> (None, s)
      | Some member \<Rightarrow>
          (let updatedMember = member\<lparr>cash := amount, lastSeen := Some now\<rparr> in
           (Some updatedMember, s\<lparr>members := AList.update i updatedMember (members s)\<rparr>)))"

definition addMemberCash ::
  "string \<Rightarrow> int \<Rightarrow> time \<Rightarrow> MemStorage \<Rightarrow> DiscordMember option \<times> MemStorage" where
  "addMemberCash i amount now s =
     (case map_of (members s) i of
        None \<Rightarrow> (None, s)
      | Some member \<Rightarrow>
          (let updatedMember = member\<lparr>cash := cash member + amount, lastSeen := Some now\<rparr> in
           (Some updatedMember, s\<lparr>members := AList.update i updatedMember (members s)\<rparr>)))"

definition getTotalCash :: "MemStorage \<Rightarrow> int" where
  "getTotalCash s = foldl (\<lambda>total member. total + cash member) 0 (map snd (members s))"

definition addMemberRole ::
  "string \<Rightarrow> string \<Rightarrow> time \<Rightarrow> MemStorage \<Rightarrow> DiscordMember option \<times> MemStorage" where
  "addMemberRole i roleId now s =
     (case map_of (members s) i of
        None \<Rightarrow> (None, s)
      | Some member \<Rightarrow>
          (let rs = (if roleId \<in> set (roles member) then roles member
                     else roles member @ [roleId]);
               updatedMember = member\<lparr>roles := rs, lastSeen := Some now\<rparr> in
           (Some updatedMember, s\<lparr>members := AList.update i updatedMember (members s)\<rparr>)))"

definition removeMemberRole ::
  "string \<Rightarrow> string \<Rightarrow> time \<Rightarrow> MemStorage \<Rightarrow> DiscordMember option \<times> MemStorage" where
  "removeMemberRole i roleId now s =
     (case map_of (members s) i of
        None \<Rightarrow> (None, s)
      | Some member \<Rightarrow>
          (let rs = filter (\<lambda>r. r \<noteq> roleId) (roles member);
               updatedMember = member\<lparr>roles := rs, lastSeen := Some now\<rparr> in
           (Some updatedMember, s\<lparr>members := AList.update i updatedMember (members s)\<rparr>)))"

definition getAllBlockedWords :: "MemStorage \<Rightarrow> BlockedWord list" where
  "getAllBlockedWords s = map snd (blockedWords s)"

definition addBlockedWord ::
  "string \<Rightarrow> InsertBlockedWord \<Rightarrow> time \<Rightarrow> MemStorage \<Rightarrow> BlockedWord \<times> MemStorage" where
  "addBlockedWord uuid iw now s =
     (let blockedWord = \<lparr>bw_id = uuid, word = ins_word iw, createdAt = Some now,
                         createdBy = ins_createdBy iw\<rparr>
      in (blockedWord, s\<lparr>blockedWords := AList.update uuid blockedWord (blockedWords s)\<rparr>))"

definition removeAllMembers :: "time \<Rightarrow> MemStorage \<Rightarrow> bool \<times> MemStorage" where
  "removeAllMembers now s = (True, updateMemberCount now (s\<lparr>members := []\<rparr>))"

section \<open>DatabaseStorage (server/storage.ts)\<close>

text \<open>
  The implementation behind the exported \<open>storage\<close>: every method is one or more
  SQL statements on the tables of \<open>shared/schema.ts\<close>. A table is the list of its
  rows. A statement is applied at once (no method opens a transaction), and the
  database rejects it when it would break a constraint the schema declares:
  \<^item> \<open>primaryKey()\<close> on \<open>discord_members.id\<close>, \<open>kick_logs.id\<close>, \<open>blocked_words.id\<close>
    and \<open>unique()\<close> on \<open>blocked_words.word\<close>;
  \<^item> \<open>kick_logs.member_id\<close> \<open>references\<close> \<open>discord_members.id\<close>, with no action on
    delete: a log row needs its member row, and a member row that a log row
    references cannot be deleted;
  \<^item> \<open>integer\<close> columns hold whole numbers of 32 bits.
  A rejected statement leaves the tables as they are and makes the \<open>await\<close> throw.
  Column defaults \<open>defaultNow()\<close> and \<open>new Date()\<close> read the same clock \<open>now\<close>.
\<close>

datatype DbError = Unavailable | UniqueViolation | ForeignKeyViolation | InvalidValue

record Database =
  discord_members :: "DiscordMember list"
  kick_logs :: "KickLog list"
  server_stats :: "ServerStats list"
  blocked_words :: "BlockedWord list"

text \<open>
  The database can also become unreachable. \<open>outage = Some n\<close>: the next \<open>n\<close>
  statements reach the database and every later one is rejected; \<open>None\<close>: every
  statement reaches it. \<open>reach\<close> is one statement's attempt: the outage left for the
  statements after it, or \<open>None\<close> when this statement does not get through.
\<close>

fun reach :: "nat option \<Rightarrow> nat option option" where
  "reach None = Some None"
| "reach (Some 0) = None"
| "reach (Some (Suc n)) = Some (Some n)"

text \<open>
  The result of a storage method: the error it throws or the value it returns, the
  outage left, and the tables afterwards.
\<close>

type_synonym 'a DbResult = "(DbError + 'a) \<times> nat option \<times> Database"

text \<open>
  \<open>await call; return v\<close>: the error of the call if it throws, else \<open>v\<close>.
\<close>

definition thenReturn :: "'a DbResult \<Rightarrow> 'b \<Rightarrow> 'b DbResult" where
  "thenReturn r v =
     (case r of
        (Inl e, left, db) \<Rightarrow> (Inl e, left, db)
      | (Inr u, left, db) \<Rightarrow> (Inr v, left, db))"

definition int4 :: "int \<Rightarrow> bool" where
  "int4 z = (- 2147483648 \<le> z \<and> z \<le> 2147483647)"

text \<open>\<open>db.select().from(discordMembers)\<close>.\<close>

definition getAllMembersDb :: "nat option \<Rightarrow> Database \<Rightarrow> DiscordMember list DbResult" where
  "getAllMembersDb outage db =
     (case reach outage of
        None \<Rightarrow> (Inl Unavailable, outage, db)
      | Some left \<Rightarrow> (Inr (discord_members db), left, db))"

text \<open>\<open>db.select().from(discordMembers).where(eq(discordMembers.id, id))\<close>.\<close>

definition getMemberDb :: "string \<Rightarrow> nat option \<Rightarrow> Database \<Rightarrow> DiscordMember option DbResult" where
  "getMemberDb i outage db =
     (case reach outage of
        None \<Rightarrow> (Inl Unavailable, outage, db)
      | Some left \<Rightarrow> (Inr (find (\<lambda>m. mid m = i) (discord_members db)), left, db))"

text \<open>
  \<open>updateStats\<close>: one \<open>UPDATE server_stats ... WHERE id = 'main' RETURNING\<close>; the
  method returns the first returned row, \<open>undefined\<close> when there is none.
\<close>

definition updateStatsDb ::
  "StatsUpdate list \<Rightarrow> time \<Rightarrow> nat option \<Rightarrow> Database \<Rightarrow> ServerStats option DbResult" where
  "updateStatsDb updates now outage db =
     (case reach outage of
        None \<Rightarrow> (Inl Unavailable, outage, db)
      | Some left \<Rightarrow>
          (let rows = map (\<lambda>r. if stats_id r = ''main''
                                then (fold applyStatsUpdate updates r)\<lparr>lastUpdated := Some now\<rparr>
                                else r) (server_stats db)
           in (Inr (find (\<lambda>r. stats_id r = ''main'') rows), left, db\<lparr>server_stats := rows\<rparr>)))"

text \<open>\<open>updateMemberCount\<close>: \<open>getAllMembers\<close>, then \<open>updateStats\<close>.\<close>

definition updateMemberCountDb :: "time \<Rightarrow> nat option \<Rightarrow> Database \<Rightarrow> unit DbResult" where
  "updateMemberCountDb now outage db =
     (case getAllMembersDb outage db of
        (Inl e, left, db1) \<Rightarrow> (Inl e, left, db1)
      | (Inr ms, left, db1) \<Rightarrow>
          thenReturn
            (updateStatsDb
               [SetTotalMembers (length ms),
                SetOnlineMembers (length (filter (\<lambda>m. status m = ''online'') ms)),
                SetActiveToday (length (filter (seenSince (dayAgo now)) ms))]
               now left db1)
            ())"

text \<open>
  The row \<open>createMember\<close> inserts: the given values, the fallbacks the method
  writes with \<open>||\<close>, and the column defaults for \<open>joinedAt\<close> and \<open>lastSeen\<close>.
\<close>

definition newRow :: "InsertMember \<Rightarrow> time \<Rightarrow> DiscordMember" where
  "newRow im now =
     \<lparr>mid = ins_id im,
      username = ins_username im,
      displayName = ins_displayName im,
      discriminator = ins_discriminator im,
      avatar = ins_avatar im,
      status = strOr (ins_status im) ''offline'',
      role = strOr (ins_role im) ''Member'',
      roles = (case ins_roles im of None \<Rightarrow> [] | Some r \<Rightarrow> r),
      cash = (case ins_cash im of None \<Rightarrow> 0 | Some c \<Rightarrow> c),
      joinedServerAt = (case ins_joinedServerAt im of None \<Rightarrow> Some now | Some t \<Rightarrow> Some t),
      joinedDiscordAt = ins_joinedDiscordAt im,
      joinedAt = Some now,
      lastSeen = Some now\<rparr>"

text \<open>
  \<open>createMember\<close>: \<open>db.insert(discordMembers).values(...).returning()\<close>, a plain
  insert with no conflict clause, then \<open>updateMemberCount\<close>.
\<close>

definition createMemberDb ::
  "InsertMember \<Rightarrow> time \<Rightarrow> nat option \<Rightarrow> Database \<Rightarrow> DiscordMember DbResult" where
  "createMemberDb im now outage db =
     (case reach outage of
        None \<Rightarrow> (Inl Unavailable, outage, db)
      | Some left \<Rightarrow>
          (let member = newRow im now in
           if \<not> int4 (cash member) then (Inl InvalidValue, left, db)
           else if mid member \<in> mid ` set (discord_members db)
           then (Inl UniqueViolation, left, db)
           else
             thenReturn
               (updateMemberCountDb now left
                  (db\<lparr>discord_members := discord_members db @ [member]\<rparr>))
               member))"

text \<open>
  \<open>deleteMember\<close>: \<open>db.delete(discordMembers).where(eq(discordMembers.id, id))\<close>,
  then \<open>updateMemberCount\<close> when a row was deleted.
\<close>

definition deleteMemberDb :: "string \<Rightarrow> time \<Rightarrow> nat option \<Rightarrow> Database \<Rightarrow> bool DbResult" where
  "deleteMemberDb i now outage db =
     (case reach outage of
        None \<Rightarrow> (Inl Unavailable, outage, db)
      | Some left \<Rightarrow>
          (let deleted = (i \<in> mid ` set (discord_members db)) in
           if deleted \<and> i \<in> memberId ` set (kick_logs db)
           then (Inl ForeignKeyViolation, left, db)
           else if deleted
           then
             thenReturn
               (updateMemberCountDb now left
                  (db\<lparr>discord_members := filter (\<lambda>m. mid m \<noteq> i) (discord_members db)\<rparr>))
               True
           else (Inr False, left, db)))"

text \<open>
  \<open>updateRecentKicksCount\<close>: a \<open>COUNT(*)\<close> over the log rows younger than a day,
  then \<open>updateStats\<close>.
\<close>

definition updateRecentKicksCountDb :: "time \<Rightarrow> nat option \<Rightarrow> Database \<Rightarrow> unit DbResult" where
  "updateRecentKicksCountDb now outage db =
     (case reach outage of
        None \<Rightarrow> (Inl Unavailable, outage, db)
      | Some left \<Rightarrow>
          thenReturn
            (updateStatsDb
               [SetRecentKicks (length (filter (kickedSince (dayAgo now)) (kick_logs db)))]
               now left db)
            ())"

text \<open>
  \<open>createKickLog\<close>: \<open>db.insert(kickLogs).values(...).returning()\<close>, then
  \<open>updateRecentKicksCount\<close>. The column default \<open>gen_random_uuid()\<close> is \<open>uuid\<close>.
\<close>

definition createKickLogDb ::
  "string \<Rightarrow> InsertKickLog \<Rightarrow> time \<Rightarrow> nat option \<Rightarrow> Database \<Rightarrow> KickLog DbResult" where
  "createKickLogDb uuid il now outage db =
     (case reach outage of
        None \<Rightarrow> (Inl Unavailable, outage, db)
      | Some left \<Rightarrow>
          (let entry = \<lparr>log_id = uuid, memberId = ins_memberId il, kickedBy = ins_kickedBy il,
                      reason = strOrNull (ins_reason il), kickedAt = Some now\<rparr> in
           if uuid \<in> log_id ` set (kick_logs db) then (Inl UniqueViolation, left, db)
           else if ins_memberId il \<notin> mid ` set (discord_members db)
           then (Inl ForeignKeyViolation, left, db)
           else
             thenReturn
               (updateRecentKicksCountDb now left (db\<lparr>kick_logs := kick_logs db @ [entry]\<rparr>))
               entry))"

text \<open>\<open>db.select().from(blockedWords)\<close>.\<close>

definition getAllBlockedWordsDb :: "nat option \<Rightarrow> Database \<Rightarrow> BlockedWord list DbResult" where
  "getAllBlockedWordsDb outage db =
     (case reach outage of
        None \<Rightarrow> (Inl Unavailable, outage, db)
      | Some left \<Rightarrow> (Inr (blocked_words db), left, db))"

text \<open>\<open>addBlockedWord\<close>: \<open>db.insert(blockedWords).values(insertWord).returning()\<close>.\<close>

definition addBlockedWordDb ::
  "string \<Rightarrow> InsertBlockedWord \<Rightarrow> time \<Rightarrow> nat option \<Rightarrow> Database \<Rightarrow> BlockedWord DbResult" where
  "addBlockedWordDb uuid iw now outage db =
     (case reach outage of
        None \<Rightarrow> (Inl Unavailable, outage, db)
      | Some left \<Rightarrow>
          (let blockedWord = \<lparr>bw_id = uuid, word = ins_word iw, createdAt = Some now,
                              createdBy = ins_createdBy iw\<rparr> in
           if uuid \<in> bw_id ` set (blocked_words db) \<or> ins_word iw \<in> word ` set (blocked_words db)
           then (Inl UniqueViolation, left, db)
           else (Inr blockedWord, left, db\<lparr>blocked_words := blocked_words db @ [blockedWord]\<rparr>)))"

text \<open>
  A JavaScript number: a finite double, which is a rational, or an infinity
  (\<open>NaN\<close>, which the schema of the route refuses as not a number, is no case
  here). \<open>asInt4\<close> is the value an \<open>integer\<close> column takes from it: the number
  must be whole and fit 32 bits, or the statement is rejected.
\<close>

datatype JsNumber = Finite rat | PosInfinity | NegInfinity

fun asInt4 :: "JsNumber \<Rightarrow> int option" where
  "asInt4 (Finite q) = (if of_int \<lfloor>q\<rfloor> = q \<and> int4 \<lfloor>q\<rfloor> then Some \<lfloor>q\<rfloor> else None)"
| "asInt4 PosInfinity = None"
| "asInt4 NegInfinity = None"

text \<open>
  \<open>updateMemberCash\<close>: one
  \<open>UPDATE discord_members SET cash = amount, last_seen = now WHERE id = id RETURNING\<close>;
  the method returns the first returned row, \<open>undefined\<close> when there is none.
\<close>

definition updateMemberCashDb ::
  "string \<Rightarrow> JsNumber \<Rightarrow> time \<Rightarrow> nat option \<Rightarrow> Database \<Rightarrow> DiscordMember option DbResult" where
  "updateMemberCashDb i amount now outage db =
     (case reach outage of
        None \<Rightarrow> (Inl Unavailable, outage, db)
      | Some left \<Rightarrow>
          (case asInt4 amount of
             None \<Rightarrow> (Inl InvalidValue, left, db)
           | Some c \<Rightarrow>
               (let rows = map (\<lambda>m. if mid m = i then m\<lparr>cash := c, lastSeen := Some now\<rparr> else m)
                             (discord_members db)
                in (Inr (find (\<lambda>m. mid m = i) rows), left, db\<lparr>discord_members := rows\<rparr>))))"

section \<open>DiscordBotService (server/discord-bot.ts)\<close>

subsection \<open>Observers and broadcast\<close>

text \<open>
  The payloads of the broadcast envelopes \<open>{type, data}\<close>. \<open>JSON.stringify\<close> is
  modelled as the identity: the message an observer receives is the envelope.
\<close>

datatype Payload =
    JoinedData InsertMember
  | IdData string
  | MemberData DiscordMember
  | ModerationData string "string option"
  | RoleData string string
  | FilteredData string string jsstring time

type_synonym Envelope = "string \<times> Payload"

datatype ReadyState = CONNECTING | OPEN | CLOSING | CLOSED

text \<open>
  A \<open>WebSocket\<close> of the \<open>ws\<close> library, as far as the service uses it: its identity
  as an object, its \<open>readyState\<close>, whether \<open>send\<close> raises on it (decided by the
  transport, outside this program), and the messages \<open>send\<close> has accepted.
\<close>

record WebSocket =
  ws_id :: nat
  readyState :: ReadyState
  sendThrows :: bool
  received :: "Envelope list"

text \<open>External calls made on the Discord API, in the order they succeeded.\<close>

datatype DiscordCall =
    CreateInvite
  | SendDM string
  | Kick string "string option"
  | Ban string "string option"
  | DeleteMessage string
  | ChannelSend string

text \<open>
  The state the service works on: the \<open>storage\<close> singleton, the set \<open>wsClients\<close>
  (a \<open>Set\<close> iterates in insertion order) and the log of external calls.
\<close>

record Server =
  storage :: Database
  wsClients :: "WebSocket list"
  discord :: "DiscordCall list"

definition addWebSocketClient :: "WebSocket \<Rightarrow> Server \<Rightarrow> Server" where
  "addWebSocketClient ws b =
     (if ws_id ws \<in> ws_id ` set (wsClients b) then b
      else b\<lparr>wsClients := wsClients b @ [ws]\<rparr>)"

text \<open>The handler registered with \<open>ws.on('close', ...)\<close>.\<close>

definition onWsClose :: "nat \<Rightarrow> Server \<Rightarrow> Server" where
  "onWsClose i b = b\<lparr>wsClients := filter (\<lambda>w. ws_id w \<noteq> i) (wsClients b)\<rparr>"

text \<open>
  The \<open>forEach\<close> of \<open>broadcastUpdate\<close>. There is no \<open>try\<close> around \<open>ws.send\<close>: an
  exception ends the iteration and leaves the function. The first component tells
  whether that happened.
\<close>

fun forEachSend :: "Envelope \<Rightarrow> WebSocket list \<Rightarrow> bool \<times> WebSocket list" where
  "forEachSend message [] = (False, [])"
| "forEachSend message (ws # rest) =
     (if readyState ws = OPEN
      then (if sendThrows ws then (True, ws # rest)
            else (let (threw, rest') = forEachSend message rest
                  in (threw, ws\<lparr>received := received ws @ [message]\<rparr> # rest')))
      else (let (threw, rest') = forEachSend message rest in (threw, ws # rest')))"

definition broadcastUpdate :: "string \<Rightarrow> Payload \<Rightarrow> Server \<Rightarrow> bool \<times> Server" where
  "broadcastUpdate type data b =
     (let (threw, clients) = forEachSend (type, data) (wsClients b)
      in (threw, b\<lparr>wsClients := clients\<rparr>))"

subsection \<open>Kick and ban\<close>

datatype FetchResult = FetchThrows | FetchNull | Fetched

text \<open>
  What the Discord side answers during one \<open>kickMember\<close> or \<open>banMember\<close> call:
  whether the guild cache has a guild, the result of \<open>guild.members.fetch\<close>, and
  whether the invite creation, the direct message and the enforcement call
  (\<open>member.kick\<close>, \<open>guild.bans.create\<close>) resolve rather than reject.
\<close>

record DiscordEnv =
  hasGuild :: bool
  fetchResult :: FetchResult
  inviteOk :: bool
  dmOk :: bool
  enforceOk :: bool

definition truthy :: "string option \<Rightarrow> bool" where
  "truthy x = (case x of None \<Rightarrow> False | Some v \<Rightarrow> v \<noteq> [])"

text \<open>
  The notice step shared by both functions; each branch sits in its own
  \<open>try\<close>/\<open>catch\<close>, so a rejection only skips the rest of that branch.
\<close>

definition notifyMember :: "DiscordEnv \<Rightarrow> string \<Rightarrow> string option \<Rightarrow> bool \<Rightarrow> DiscordCall list" where
  "notifyMember env i rsn sendInvite =
     (if sendInvite
      then (if inviteOk env
            then CreateInvite # (if dmOk env then [SendDM i] else [])
            else [])
      else if truthy rsn then (if dmOk env then [SendDM i] else [])
      else [])"

text \<open>
  After the enforcement call every \<open>await storage...\<close> sits directly in the outer
  \<open>try\<close>: a rejected statement ends the function in the \<open>catch\<close>, which returns
  \<open>false\<close>; what earlier statements wrote stays written.
\<close>

definition kickMember ::
  "DiscordEnv \<Rightarrow> nat option \<Rightarrow> string \<Rightarrow> string \<Rightarrow> string option \<Rightarrow> bool \<Rightarrow> string \<Rightarrow> time
     \<Rightarrow> Server \<Rightarrow> bool \<times> Server" where
  "kickMember env outage i actor rsn sendInvite uuid now b =
     (if \<not> hasGuild env then (False, b)
      else case fetchResult env of
        FetchThrows \<Rightarrow> (False, b)
      | FetchNull \<Rightarrow> (False, b)
      | Fetched \<Rightarrow>
          (let b1 = b\<lparr>discord := discord b @ notifyMember env i rsn sendInvite\<rparr> in
           if \<not> enforceOk env then (False, b1)
           else
             (let b2 = b1\<lparr>discord := discord b1 @ [Kick i rsn]\<rparr> in
              case createKickLogDb uuid
                     \<lparr>ins_memberId = i, ins_kickedBy = actor, ins_reason = rsn\<rparr> now outage
                     (storage b2) of
                (Inl e, left, db3) \<Rightarrow> (False, b2\<lparr>storage := db3\<rparr>)
              | (Inr entry, left, db3) \<Rightarrow>
                  (case deleteMemberDb i now left db3 of
                     (Inl e, left2, db4) \<Rightarrow> (False, b2\<lparr>storage := db4\<rparr>)
                   | (Inr deleted, left2, db4) \<Rightarrow>
                       (let (threw, b5) = broadcastUpdate ''memberKicked'' (ModerationData i rsn)
                                            (b2\<lparr>storage := db4\<rparr>)
                        in (\<not> threw, b5))))))"

definition banMember ::
  "DiscordEnv \<Rightarrow> nat option \<Rightarrow> string \<Rightarrow> string \<Rightarrow> string option \<Rightarrow> bool \<Rightarrow> time
     \<Rightarrow> Server \<Rightarrow> bool \<times> Server" where
  "banMember env outage i actor rsn sendInvite now b =
     (if \<not> hasGuild env then (False, b)
      else case fetchResult env of
        FetchThrows \<Rightarrow> (False, b)
      | FetchNull \<Rightarrow> (False, b)
      | Fetched \<Rightarrow>
          (let b1 = b\<lparr>discord := discord b @ notifyMember env i rsn sendInvite\<rparr> in
           if \<not> enforceOk env then (False, b1)
           else
             (let b2 = b1\<lparr>discord := discord b1 @ [Ban i rsn]\<rparr> in
              case deleteMemberDb i now outage (storage b2) of
                (Inl e, left, db3) \<Rightarrow> (False, b2\<lparr>storage := db3\<rparr>)
              | (Inr deleted, left, db3) \<Rightarrow>
                  (let (threw, b4) = broadcastUpdate ''memberBanned'' (ModerationData i rsn)
                                       (b2\<lparr>storage := db3\<rparr>)
                   in (\<not> threw, b4)))))"

subsection \<open>Message filter\<close>

text \<open>
  \<open>String.prototype.includes\<close>: the needle occurs at some position.
\<close>

definition startsWith :: "'a list \<Rightarrow> 'a list \<Rightarrow> bool" where
  "startsWith s t = (take (length t) s = t)"

fun includes_str :: "'a list \<Rightarrow> 'a list \<Rightarrow> bool" where
  "includes_str [] t = (t = [])"
| "includes_str (c # s) t = (startsWith (c # s) t \<or> includes_str s t)"

text \<open>
  \<open>String.prototype.toLowerCase\<close> is a built-in of the engine: its mapping over
  all of Unicode is not part of this program, so the filter takes it as the
  parameter \<open>toLowerCase\<close>.
\<close>

definition containsBlockedWord ::
  "(jsstring \<Rightarrow> jsstring) \<Rightarrow> BlockedWord list \<Rightarrow> jsstring \<Rightarrow> bool" where
  "containsBlockedWord toLowerCase ws msg =
     (let messageContent = toLowerCase msg
      in list_ex (\<lambda>blockedWord. includes_str messageContent (toLowerCase (word blockedWord))) ws)"

record Message =
  msg_id :: string
  authorId :: string
  authorUsername :: string
  authorBot :: bool
  content :: jsstring

text \<open>Whether \<open>message.delete()\<close> and \<open>message.channel.send(...)\<close> resolve.\<close>

record FilterEnv =
  deleteOk :: bool
  channelSendOk :: bool

text \<open>
  The whole body is one \<open>try\<close>: a rejected blocked-word query or a rejected
  \<open>message.delete()\<close> ends it in the outer \<open>catch\<close>; only the channel notice has a
  \<open>try\<close> of its own.
\<close>

definition handleMessageFilter ::
  "(jsstring \<Rightarrow> jsstring) \<Rightarrow> FilterEnv \<Rightarrow> nat option \<Rightarrow> Message \<Rightarrow> time \<Rightarrow> Server \<Rightarrow> Server" where
  "handleMessageFilter toLowerCase env outage message now b =
     (case getAllBlockedWordsDb outage (storage b) of
        (Inl e, left, db1) \<Rightarrow> b\<lparr>storage := db1\<rparr>
      | (Inr ws, left, db1) \<Rightarrow>
          (if containsBlockedWord toLowerCase ws (content message)
           then
             (if \<not> deleteOk env then b\<lparr>storage := db1\<rparr>
              else
                (let b1 = b\<lparr>storage := db1,
                            discord := discord b @ [DeleteMessage (msg_id message)]\<rparr>;
                     b2 = (if channelSendOk env
                           then b1\<lparr>discord := discord b1 @ [ChannelSend (authorId message)]\<rparr>
                           else b1);
                     (threw, b3) = broadcastUpdate ''messageFiltered''
                        (FilteredData (authorId message) (authorUsername message)
                           (content message) now) b2
                 in b3))
           else b\<lparr>storage := db1\<rparr>))"

text \<open>The \<open>Events.MessageCreate\<close> handler.\<close>

definition onMessageCreate ::
  "(jsstring \<Rightarrow> jsstring) \<Rightarrow> FilterEnv \<Rightarrow> nat option \<Rightarrow> Message \<Rightarrow> time \<Rightarrow> Server \<Rightarrow> Server" where
  "onMessageCreate toLowerCase env outage message now b =
     (if authorBot message then b
      else handleMessageFilter toLowerCase env outage message now b)"

subsection \<open>Snapshot sync\<close>

text \<open>
  A guild member as \<open>syncMembers\<close> reads it. \<open>gm_presence\<close> is
  \<open>member.presence?.status\<close>, \<open>gm_permissions\<close> is \<open>member.permissions\<close> (the flags
  \<open>has\<close> answers true for), \<open>gm_roleIds\<close> the ids of \<open>member.roles.cache\<close>.
\<close>

record GuildMember =
  gm_id :: string
  gm_username :: string
  gm_displayName :: string
  gm_discriminator :: string
  gm_avatar :: "string option"
  gm_bot :: bool
  gm_presence :: "string option"
  gm_permissions :: "string list option"
  gm_roleIds :: "string list"
  gm_joinedAt :: "time option"
  gm_createdAt :: time

text \<open>\<open>fetchMembers = None\<close>: \<open>guild.members.fetch()\<close> rejects.\<close>

record Guild =
  everyoneId :: string
  fetchMembers :: "GuildMember list option"

definition getMemberRole :: "GuildMember \<Rightarrow> string" where
  "getMemberRole member =
     (case gm_permissions member of
        None \<Rightarrow> ''Member''
      | Some ps \<Rightarrow>
          if ''Administrator'' \<in> set ps then ''Admin''
          else if ''KickMembers'' \<in> set ps then ''Moderator''
          else ''Member'')"

definition mapPresenceStatus :: "string option \<Rightarrow> string" where
  "mapPresenceStatus st =
     (if st = Some ''online'' then ''online''
      else if st = Some ''idle'' then ''idle''
      else if st = Some ''dnd'' then ''dnd''
      else ''offline'')"

definition syncRecord :: "Guild \<Rightarrow> GuildMember \<Rightarrow> InsertMember" where
  "syncRecord g member =
     \<lparr>ins_id = gm_id member,
      ins_username = gm_username member,
      ins_displayName = strOr (Some (gm_displayName member)) (gm_username member),
      ins_discriminator = Some (gm_discriminator member),
      ins_avatar = gm_avatar member,
      ins_status = Some (mapPresenceStatus (gm_presence member)),
      ins_role = Some (getMemberRole member),
      ins_roles = Some (filter (\<lambda>r. r \<noteq> everyoneId g) (gm_roleIds member)),
      ins_cash = None,
      ins_joinedServerAt = gm_joinedAt member,
      ins_joinedDiscordAt = Some (gm_createdAt member)\<rparr>"

text \<open>
  The \<open>for\<close> loop of \<open>syncMembers\<close>: a \<open>createMember\<close> that throws leaves the loop
  for the \<open>catch\<close> of the function, which ends the run.
\<close>

fun syncLoop :: "Guild \<Rightarrow> time \<Rightarrow> GuildMember list \<Rightarrow> nat option \<Rightarrow> Database \<Rightarrow> Database" where
  "syncLoop g now [] outage db = db"
| "syncLoop g now (member # rest) outage db =
     (if gm_bot member then syncLoop g now rest outage db
      else
        (case createMemberDb (syncRecord g member) now outage db of
           (Inl e, left, db1) \<Rightarrow> db1
         | (Inr m, left, db1) \<Rightarrow> syncLoop g now rest left db1))"

definition syncMembers :: "Guild option \<Rightarrow> nat option \<Rightarrow> time \<Rightarrow> Server \<Rightarrow> Server" where
  "syncMembers guild outage now b =
     (case guild of
        None \<Rightarrow> b
      | Some g \<Rightarrow>
          (case fetchMembers g of
             None \<Rightarrow> b
           | Some ms \<Rightarrow> b\<lparr>storage := syncLoop g now ms outage (storage b)\<rparr>))"

section \<open>Routes (server/routes.ts)\<close>

text \<open>
  The \<open>amount\<close> of a request body as \<open>updateCashSchema\<close> sees it: absent, present
  but not a number, or a number.
\<close>

datatype AmountField = Absent | NotNumber | Num JsNumber

datatype Response =
    Ok200 DiscordMember
  | BadRequest400
  | NotFound404
  | InternalError500

text \<open>
  \<open>updateCashSchema = z.object({ amount: z.number().min(0) })\<close>: any number that
  is not below 0 passes, whole or not, finite or not.
\<close>

definition updateCashSchema :: "AmountField \<Rightarrow> JsNumber option" where
  "updateCashSchema body =
     (case body of
        Num (Finite q) \<Rightarrow> if 0 \<le> q then Some (Finite q) else None
      | Num PosInfinity \<Rightarrow> Some PosInfinity
      | Num NegInfinity \<Rightarrow> None
      | Absent \<Rightarrow> None
      | NotNumber \<Rightarrow> None)"

text \<open>
  \<open>PUT /api/members/:id/cash\<close>: a body the schema refuses is answered with 400, a
  throwing storage call with 500 from the \<open>catch\<close> of the handler.
\<close>

definition putMemberCash ::
  "string \<Rightarrow> AmountField \<Rightarrow> nat option \<Rightarrow> time \<Rightarrow> Database \<Rightarrow> Response \<times> Database" where
  "putMemberCash i body outage now db =
     (case updateCashSchema body of
        None \<Rightarrow> (BadRequest400, db)
      | Some amount \<Rightarrow>
          (case updateMemberCashDb i amount now outage db of
             (Inl e, left, db1) \<Rightarrow> (InternalError500, db1)
           | (Inr (Some updatedMember), left, db1) \<Rightarrow> (Ok200 updatedMember, db1)
           | (Inr None, left, db1) \<Rightarrow> (NotFound404, db1)))"

section \<open>Notions used by the properties\<close>

text \<open>
  What one publish does to one observer when no \<open>send\<close> raises: an \<open>OPEN\<close> socket
  gets the envelope appended to what it has received, any other socket is skipped.
\<close>

definition deliver :: "Envelope \<Rightarrow> WebSocket \<Rightarrow> WebSocket" where
  "deliver message ws =
     (if readyState ws = OPEN then ws\<lparr>received := received ws @ [message]\<rparr> else ws)"

definition noSendThrows :: "WebSocket list \<Rightarrow> bool" where
  "noSendThrows wss = list_all (\<lambda>ws. \<not> (readyState ws = OPEN \<and> sendThrows ws)) wss"

text \<open>
  The statistics row agrees with the member map at the instant \<open>now\<close>: the three
  fields \<open>updateMemberCount\<close> owns hold what a recomputation would store.
\<close>

definition statsInSync :: "time \<Rightarrow> MemStorage \<Rightarrow> bool" where
  "statsInSync now s =
     (totalMembers (stats s) = length (getAllMembers s) \<and>
      onlineMembers (stats s) = length (filter (\<lambda>m. status m = ''online'') (getAllMembers s)) \<and>
      activeToday (stats s) = length (filter (seenSince (dayAgo now)) (getAllMembers s)))"

text \<open>Sequences of \<open>createMember\<close> and \<open>deleteMember\<close> calls.\<close>

datatype MemberOp = CreateOp InsertMember time | DeleteOp string time

fun applyOp :: "MemberOp \<Rightarrow> MemStorage \<Rightarrow> MemStorage" where
  "applyOp (CreateOp im now) s = snd (createMember im now s)"
| "applyOp (DeleteOp i now) s = snd (deleteMember i now s)"

fun applyOps :: "MemberOp list \<Rightarrow> MemStorage \<Rightarrow> MemStorage" where
  "applyOps [] s = s"
| "applyOps (x # xs) s = applyOps xs (applyOp x s)"

text \<open>
  Whether a call writes to the member map: a create always does, a delete does when
  the id is present. \<open>mutates\<close> tells whether some call of the sequence does.
\<close>

fun writes :: "MemberOp \<Rightarrow> MemStorage \<Rightarrow> bool" where
  "writes (CreateOp im now) s = True"
| "writes (DeleteOp i now) s = (i \<in> fst ` set (members s))"

fun mutates :: "MemberOp list \<Rightarrow> MemStorage \<Rightarrow> bool" where
  "mutates [] s = False"
| "mutates (x # xs) s = (writes x s \<or> mutates xs (applyOp x s))"

text \<open>The guild members a sync stores: the ones that are not bots.\<close>

definition humans :: "GuildMember list \<Rightarrow> GuildMember list" where
  "humans ms = filter (\<lambda>m. \<not> gm_bot m) ms"

text \<open>
  The effect of a balance or tag operation \<open>r\<close> on store \<open>s\<close> at member \<open>i\<close>: it
  returns and stores the record \<open>m'\<close>, whose \<open>lastSeen\<close> is \<open>now\<close>, so that the
  activity filter of a recompute at any instant before \<open>now\<close> plus 24 hours keeps
  the record; every other member, the order of the map, the kick log, the blocked
  words and the statistics row are as before.
\<close>

definition refreshes ::
  "time \<Rightarrow> string \<Rightarrow> DiscordMember \<Rightarrow> MemStorage \<Rightarrow> DiscordMember option \<times> MemStorage \<Rightarrow> bool" where
  "refreshes now i m' s r =
     (fst r = Some m' \<and> lastSeen m' = Some now \<and>
      getMember i (snd r) = Some m' \<and>
      (\<forall>t. t < now + 86400000 \<longrightarrow>
         m' \<in> set (filter (seenSince (dayAgo t)) (getAllMembers (snd r)))) \<and>
      (\<forall>j. j \<noteq> i \<longrightarrow> getMember j (snd r) = getMember j s) \<and>
      map fst (members (snd r)) = map fst (members s) \<and>
      kickLogs (snd r) = kickLogs s \<and> blockedWords (snd r) = blockedWords s \<and>
      stats (snd r) = stats s)"

text \<open>
  What is known of the engine's \<open>toLowerCase\<close> without its Unicode tables: on a
  text of ASCII code units it turns \<open>A\<close>..\<open>Z\<close> into \<open>a\<close>..\<open>z\<close> and keeps every other
  unit. \<open>foldsAscii\<close> says so of a candidate function.
\<close>

definition asciiLower :: "nat \<Rightarrow> nat" where
  "asciiLower u = (if 65 \<le> u \<and> u \<le> 90 then u + 32 else u)"

definition isAscii :: "jsstring \<Rightarrow> bool" where
  "isAscii s = list_all (\<lambda>u. u < 128) s"

definition foldsAscii :: "(jsstring \<Rightarrow> jsstring) \<Rightarrow> bool" where
  "foldsAscii f = (\<forall>s. isAscii s \<longrightarrow> f s = map asciiLower s)"

text \<open>
  Case-insensitive substring containment in the words of the specification, with
  no reference to lower-casing: two ASCII code units are the same letter when they
  are equal or one is the capital of the other, and a word occurs in a text when
  some contiguous part of the text is the word letter by letter.
\<close>

definition sameLetter :: "nat \<Rightarrow> nat \<Rightarrow> bool" where
  "sameLetter a b =
     (a = b \<or> (65 \<le> a \<and> a \<le> 90 \<and> b = a + 32) \<or> (65 \<le> b \<and> b \<le> 90 \<and> a = b + 32))"

definition occursIgnoringCase :: "jsstring \<Rightarrow> jsstring \<Rightarrow> bool" where
  "occursIgnoringCase w s = (\<exists>p u q. s = p @ u @ q \<and> list_all2 sameLetter u w)"

text \<open>The member ids of the table and the member ids the kick log refers to.\<close>

definition memberIds :: "Database \<Rightarrow> string set" where
  "memberIds db = mid ` set (discord_members db)"

definition loggedIds :: "Database \<Rightarrow> string set" where
  "loggedIds db = memberId ` set (kick_logs db)"

subsection \<open>Concrete inputs\<close>

definition exInsert :: "string \<Rightarrow> InsertMember" where
  "exInsert i =
     \<lparr>ins_id = i, ins_username = i, ins_displayName = i, ins_discriminator = None,
      ins_avatar = None, ins_status = Some ''offline'', ins_role = Some ''Member'',
      ins_roles = None, ins_cash = None, ins_joinedServerAt = None,
      ins_joinedDiscordAt = None\<rparr>"

definition exSocket :: "nat \<Rightarrow> ReadyState \<Rightarrow> bool \<Rightarrow> WebSocket" where
  "exSocket n st thr = \<lparr>ws_id = n, readyState = st, sendThrows = thr, received = []\<rparr>"

text \<open>An in-memory store holding member \<open>A\<close>, created at instant 0.\<close>

definition exStore :: MemStorage where
  "exStore = snd (createMember (exInsert ''A'') 0 (newMemStorage 0))"

text \<open>Member \<open>A\<close> created at instant 0 and member \<open>B\<close> two days later.\<close>

definition exTwo :: MemStorage where
  "exTwo = snd (createMember (exInsert ''B'') 172800000 exStore)"

text \<open>A new store whose statistics row was set to five members by \<open>updateStats\<close>.\<close>

definition exStale :: MemStorage where
  "exStale = snd (updateStats [SetTotalMembers 5] 0 (newMemStorage 0))"

text \<open>
  A database with the statistics row and no other row; the same with member \<open>A\<close>,
  created at instant 0; and the latter with the blocked word \<open>ass\<close>.
\<close>

definition exEmptyDb :: Database where
  "exEmptyDb =
     \<lparr>discord_members = [], kick_logs = [],
      server_stats = [\<lparr>stats_id = ''main'', totalMembers = 0, onlineMembers = 0,
                       activeToday = 0, recentKicks = 0, lastUpdated = Some 0\<rparr>],
      blocked_words = []\<rparr>"

definition exDb :: Database where
  "exDb = snd (snd (createMemberDb (exInsert ''A'') 0 None exEmptyDb))"

definition exWordsDb :: Database where
  "exWordsDb = snd (snd (addBlockedWordDb ''w1''
       \<lparr>ins_word = units ''ass'', ins_createdBy = ''admin''\<rparr> 0 None exDb))"

text \<open>A server on \<open>exDb\<close> with one open observer.\<close>

definition exServer :: Server where
  "exServer = \<lparr>storage = exDb, wsClients = [exSocket 1 OPEN False], discord = []\<rparr>"

definition exEmpty :: Server where
  "exEmpty = \<lparr>storage = exEmptyDb, wsClients = [], discord = []\<rparr>"

definition exEnv :: "bool \<Rightarrow> DiscordEnv" where
  "exEnv ok = \<lparr>hasGuild = True, fetchResult = Fetched, inviteOk = True, dmOk = True,
               enforceOk = ok\<rparr>"

definition exMessage :: "string \<Rightarrow> Message" where
  "exMessage s = \<lparr>msg_id = ''m1'', authorId = ''A'', authorUsername = ''alice'',
                  authorBot = False, content = units s\<rparr>"

text \<open>A lower-casing function that folds the ASCII capitals and nothing else.\<close>

definition exLower :: "jsstring \<Rightarrow> jsstring" where
  "exLower s = map asciiLower s"

definition exGuild :: Guild where
  "exGuild = \<lparr>everyoneId = ''g0'',
     fetchMembers = Some [\<lparr>gm_id = ''A'', gm_username = ''alice'', gm_displayName = ''Alice'',
        gm_discriminator = ''0'', gm_avatar = None, gm_bot = False, gm_presence = Some ''online'',
        gm_permissions = Some [], gm_roleIds = [''g0'', ''r1''], gm_joinedAt = Some 500,
        gm_createdAt = 100\<rparr>]\<rparr>"

text \<open>
  The server after a kick of \<open>A\<close> whose enforcement call succeeded, and the server
  with the blocked word.
\<close>

definition exKicked :: Server where
  "exKicked = snd (kickMember (exEnv True) None ''A'' ''web-dashboard'' (Some ''spam'') False
                     ''u1'' 1000 exServer)"

definition exWordsServer :: Server where
  "exWordsServer = exServer\<lparr>storage := exWordsDb\<rparr>"

section \<open>Auxiliary lemmas\<close>

lemmas storage_defs =
  newMemStorage_def createMember_def newMember_def updateMemberCount_def deleteMember_def
  updateMember_def updateStats_def updateMemberCash_def addMemberCash_def addMemberRole_def
  removeMemberRole_def createKickLog_def addBlockedWord_def getMember_def getAllMembers_def
  getAllBlockedWords_def strOr_def strOrNull_def seenSince_def kickedSince_def dayAgo_def
  Let_def

lemmas example_defs = exInsert_def exSocket_def exStore_def

lemmas db_defs =
  createMemberDb_def deleteMemberDb_def createKickLogDb_def updateRecentKicksCountDb_def
  updateMemberCountDb_def updateStatsDb_def getAllMembersDb_def getAllBlockedWordsDb_def
  addBlockedWordDb_def updateMemberCashDb_def thenReturn_def newRow_def int4_def
  memberIds_def loggedIds_def strOr_def strOrNull_def seenSince_def kickedSince_def
  dayAgo_def Let_def

subsection \<open>Broadcast\<close>

lemma forEachSend_ok:
  "noSendThrows wss \<Longrightarrow> forEachSend message wss = (False, map (deliver message) wss)"
  by (induction wss) (auto simp: noSendThrows_def deliver_def)

lemma forEachSend_ids: "map ws_id (snd (forEachSend message wss)) = map ws_id wss"
  by (induction wss) (simp_all add: split_beta)

lemma noSendThrows_deliver:
  "noSendThrows wss \<Longrightarrow> noSendThrows (map (deliver message) wss)"
  by (induction wss) (auto simp: noSendThrows_def deliver_def)

lemma broadcastUpdate_ok:
  "noSendThrows (wsClients b) \<Longrightarrow>
   broadcastUpdate type data b = (False, b\<lparr>wsClients := map (deliver (type, data)) (wsClients b)\<rparr>)"
  by (simp add: broadcastUpdate_def forEachSend_ok)

lemma broadcastUpdate_storage [simp]: "storage (snd (broadcastUpdate type data b)) = storage b"
  by (simp add: broadcastUpdate_def split: prod.splits)

lemma broadcastUpdate_discord [simp]: "discord (snd (broadcastUpdate type data b)) = discord b"
  by (simp add: broadcastUpdate_def split: prod.splits)

subsection \<open>MemStorage\<close>

lemma present_iff: "i \<in> fst ` set (members s) \<longleftrightarrow> getMember i s \<noteq> None"
  by (simp add: getMember_def map_of_eq_None_iff)

lemma updateMemberCount_members [simp]: "members (updateMemberCount now s) = members s"
  by (simp add: updateMemberCount_def Let_def)

lemma statsInSync_updateMemberCount: "statsInSync now (updateMemberCount now s)"
  by (simp add: statsInSync_def updateMemberCount_def getAllMembers_def Let_def)

lemma applyOp_keeps_count:
  "totalMembers (stats s) = length (getAllMembers s) \<Longrightarrow>
   totalMembers (stats (applyOp x s)) = length (getAllMembers (applyOp x s))"
  by (cases x)
     (simp_all add: createMember_def deleteMember_def updateMemberCount_def getAllMembers_def Let_def)

lemma writes_sets_count:
  "writes x s \<Longrightarrow> totalMembers (stats (applyOp x s)) = length (getAllMembers (applyOp x s))"
  by (cases x)
     (simp_all add: createMember_def deleteMember_def updateMemberCount_def getAllMembers_def Let_def)

lemma update_present_keys:
  "map_of xs i = Some m \<Longrightarrow> map fst (AList.update i m' xs) = map fst xs"
  by (auto simp: AList.update_keys dest: map_of_SomeD intro: rev_image_eqI)

lemma update_present_value: "m' \<in> snd ` set (AList.update i m' xs)"
  by (induction xs) auto

lemma refreshes_update:
  assumes "map_of (members s) i = Some m" and "lastSeen m' = Some now"
  shows "refreshes now i m' s (Some m', s\<lparr>members := AList.update i m' (members s)\<rparr>)"
proof -
  have "seenSince (dayAgo t) m'" if "t < now + 86400000" for t
    using that assms(2) by (simp add: seenSince_def dayAgo_def)
  then show ?thesis
    using assms
    by (simp add: refreshes_def getMember_def getAllMembers_def AList.update_conv'
        update_present_keys update_present_value)
qed

text \<open>
  \<open>MemStorage.updateMemberCash\<close> stores the amount it is given, of either sign.
\<close>

lemma updateMemberCash_unchecked:
  "getMember i s = Some m \<Longrightarrow>
   getMember i (snd (updateMemberCash i a now s)) = Some (m\<lparr>cash := a, lastSeen := Some now\<rparr>)"
  by (simp add: updateMemberCash_def getMember_def AList.update_conv' Let_def)

text \<open>
  \<open>MemStorage.createMember\<close> is an upsert that writes \<open>joinedAt\<close> and \<open>lastSeen\<close>
  anew on every call; the service does not run on this class.
\<close>

lemma memStorage_createMember_restamps:
  "lastSeen (fst (createMember (exInsert ''A'') 1000 (newMemStorage 0))) = Some 1000
   \<and> map (lastSeen \<circ> snd) (members (snd (createMember (exInsert ''A'') 2000
        (snd (createMember (exInsert ''A'') 1000 (newMemStorage 0)))))) = [Some 2000]"
  by (simp add: createMember_def newMember_def newMemStorage_def updateMemberCount_def
      exInsert_def Let_def)

subsection \<open>DatabaseStorage\<close>

lemma reach_eq_None: "reach outage = None \<longleftrightarrow> outage = Some 0"
  by (cases outage rule: reach.cases) simp_all

lemma thenReturn_snd [simp]: "snd (thenReturn r v) = snd r"
  by (cases r rule: prod_cases3) (simp add: thenReturn_def split: sum.splits)

lemma thenReturn_Inr [simp]:
  "thenReturn r v = (Inr x, l, d) \<longleftrightarrow> x = v \<and> (\<exists>u. r = (Inr u, l, d))"
  by (cases r rule: prod_cases3) (auto simp: thenReturn_def split: sum.splits)

lemma thenReturn_Inl [simp]:
  "thenReturn r v = (Inl e, l, d) \<longleftrightarrow> r = (Inl e, l, d)"
  by (cases r rule: prod_cases3) (auto simp: thenReturn_def split: sum.splits)

lemma updateStatsDb_frame [simp]:
  "discord_members (snd (snd (updateStatsDb u now outage db))) = discord_members db"
  "kick_logs (snd (snd (updateStatsDb u now outage db))) = kick_logs db"
  "blocked_words (snd (snd (updateStatsDb u now outage db))) = blocked_words db"
  by (simp_all add: updateStatsDb_def Let_def split: option.splits)

lemma updateMemberCountDb_frame [simp]:
  "discord_members (snd (snd (updateMemberCountDb now outage db))) = discord_members db"
  "kick_logs (snd (snd (updateMemberCountDb now outage db))) = kick_logs db"
  "blocked_words (snd (snd (updateMemberCountDb now outage db))) = blocked_words db"
  by (simp_all add: updateMemberCountDb_def getAllMembersDb_def split: option.splits)

lemma updateRecentKicksCountDb_frame [simp]:
  "discord_members (snd (snd (updateRecentKicksCountDb now outage db))) = discord_members db"
  "kick_logs (snd (snd (updateRecentKicksCountDb now outage db))) = kick_logs db"
  "blocked_words (snd (snd (updateRecentKicksCountDb now outage db))) = blocked_words db"
  by (simp_all add: updateRecentKicksCountDb_def split: option.splits)

lemma updateMemberCountDb_reachable:
  "\<exists>db'. updateMemberCountDb now None db = (Inr (), None, db')"
  by (simp add: updateMemberCountDb_def getAllMembersDb_def updateStatsDb_def Let_def thenReturn_def)

lemma deleteMemberDb_kick_logs [simp]:
  "kick_logs (snd (snd (deleteMemberDb i now outage db))) = kick_logs db"
  by (simp add: deleteMemberDb_def Let_def split: option.splits)

lemma deleteMemberDb_rejected_keeps:
  assumes "i \<in> memberIds db" and "i \<in> loggedIds db"
  shows "snd (snd (deleteMemberDb i now outage db)) = db"
    and "\<exists>e. fst (deleteMemberDb i now outage db) = Inl e"
  using assms
  by (auto simp: deleteMemberDb_def memberIds_def loggedIds_def Let_def split: option.splits)

lemma deleteMemberDb_reachable:
  assumes "i \<notin> loggedIds db"
  shows "\<exists>db'. deleteMemberDb i now None db = (Inr (i \<in> memberIds db), None, db')
           \<and> i \<notin> memberIds db' \<and> kick_logs db' = kick_logs db"
proof (cases "i \<in> memberIds db")
  case True
  obtain db' where u: "updateMemberCountDb now None
      (db\<lparr>discord_members := filter (\<lambda>m. mid m \<noteq> i) (discord_members db)\<rparr>) = (Inr (), None, db')"
    using updateMemberCountDb_reachable by blast
  have "discord_members db' = filter (\<lambda>m. mid m \<noteq> i) (discord_members db)"
    and "kick_logs db' = kick_logs db"
    using updateMemberCountDb_frame(1,2) [of now None
        "db\<lparr>discord_members := filter (\<lambda>m. mid m \<noteq> i) (discord_members db)\<rparr>"]
    by (simp_all add: u)
  then show ?thesis
    using True assms u
    by (auto simp: deleteMemberDb_def memberIds_def loggedIds_def Let_def)
next
  case False
  then show ?thesis
    by (auto simp: deleteMemberDb_def memberIds_def Let_def)
qed

lemma createKickLogDb_discord_members [simp]:
  "discord_members (snd (snd (createKickLogDb uuid il now outage db))) = discord_members db"
  by (simp add: createKickLogDb_def Let_def split: option.splits)

lemma createKickLogDb_kick_logs:
  "kick_logs (snd (snd (createKickLogDb uuid il now outage db))) =
     (if outage \<noteq> Some 0 \<and> uuid \<notin> log_id ` set (kick_logs db) \<and> ins_memberId il \<in> memberIds db
      then kick_logs db @ [\<lparr>log_id = uuid, memberId = ins_memberId il, kickedBy = ins_kickedBy il,
                             reason = strOrNull (ins_reason il), kickedAt = Some now\<rparr>]
      else kick_logs db)"
  by (simp add: createKickLogDb_def memberIds_def Let_def reach_eq_None split: option.splits)

lemma createKickLogDb_accepted:
  assumes "fst (createKickLogDb uuid il now outage db) = Inr e"
  shows "outage \<noteq> Some 0 \<and> uuid \<notin> log_id ` set (kick_logs db) \<and> ins_memberId il \<in> memberIds db"
  using assms
  by (auto simp: createKickLogDb_def memberIds_def Let_def reach_eq_None
      split: option.splits if_splits)

lemma createKickLogDb_Inr:
  assumes "createKickLogDb uuid il now outage db = (Inr e, l, db')"
  shows "ins_memberId il \<in> memberIds db' \<and> ins_memberId il \<in> loggedIds db'"
proof -
  from assms have f: "fst (createKickLogDb uuid il now outage db) = Inr e"
    and d: "db' = snd (snd (createKickLogDb uuid il now outage db))"
    by simp_all
  note ok = createKickLogDb_accepted [OF f]
  have "kick_logs db' = kick_logs db @ [\<lparr>log_id = uuid, memberId = ins_memberId il,
          kickedBy = ins_kickedBy il, reason = strOrNull (ins_reason il), kickedAt = Some now\<rparr>]"
    unfolding d using ok by (simp add: createKickLogDb_kick_logs)
  moreover have "discord_members db' = discord_members db"
    unfolding d by simp
  ultimately show ?thesis using ok by (simp add: memberIds_def loggedIds_def)
qed

lemma newRow_mid [simp]: "mid (newRow im now) = ins_id im"
  by (simp add: newRow_def)

lemma reach_Some: "reach outage = Some left \<Longrightarrow> outage \<noteq> Some 0"
  by (cases outage rule: reach.cases) simp_all

lemma createMemberDb_members:
  "discord_members (snd (snd (createMemberDb im now outage db))) =
     (if outage \<noteq> Some 0 \<and> int4 (cash (newRow im now)) \<and> ins_id im \<notin> memberIds db
      then discord_members db @ [newRow im now] else discord_members db)"
proof (cases "reach outage")
  case None
  then show ?thesis by (simp add: createMemberDb_def reach_eq_None)
next
  case (Some left)
  then show ?thesis
    using reach_Some [OF Some] by (simp add: createMemberDb_def memberIds_def Let_def)
qed

lemma createMemberDb_present:
  assumes "ins_id im \<in> memberIds db"
  shows "snd (snd (createMemberDb im now outage db)) = db"
    and "\<exists>e. fst (createMemberDb im now outage db) = Inl e"
  using assms
  by (auto simp: createMemberDb_def memberIds_def Let_def split: option.splits)

lemma createMemberDb_keeps:
  "x \<in> memberIds db \<Longrightarrow> x \<in> memberIds (snd (snd (createMemberDb im now outage db)))"
  by (simp add: memberIds_def createMemberDb_members)

lemma createMemberDb_twice:
  assumes "outage1 \<noteq> Some 0"
  shows "snd (snd (createMemberDb im t2 outage2 (snd (snd (createMemberDb im t1 outage1 db)))))
         = snd (snd (createMemberDb im t1 outage1 db))"
proof (cases "int4 (cash (newRow im t1))")
  case False
  then have c: "\<not> int4 (cash (newRow im t2))" by (simp add: newRow_def)
  have "snd (snd (createMemberDb im t outage d)) = d" if "\<not> int4 (cash (newRow im t))" for t outage d
    using that by (simp add: createMemberDb_def Let_def split: option.splits)
  with False c show ?thesis by simp
next
  case True
  have "ins_id im \<in> memberIds (snd (snd (createMemberDb im t1 outage1 db)))"
    using assms True by (simp add: memberIds_def createMemberDb_members)
  then show ?thesis by (rule createMemberDb_present(1))
qed

lemma syncRecord_row:
  "ins_id (syncRecord g m) = gm_id m" "int4 (cash (newRow (syncRecord g m) now))"
  by (simp_all add: syncRecord_def newRow_def int4_def)

lemma syncLoop_keeps:
  "x \<in> memberIds db \<Longrightarrow> x \<in> memberIds (syncLoop g now ms outage db)"
proof (induction ms arbitrary: outage db)
  case Nil
  then show ?case by simp
next
  case (Cons m ms)
  show ?case
  proof (cases "gm_bot m")
    case True
    with Cons show ?thesis by simp
  next
    case False
    obtain r l d where c: "createMemberDb (syncRecord g m) now outage db = (r, l, d)"
      by (rule prod_cases3)
    have "x \<in> memberIds d"
      using createMemberDb_keeps [OF Cons.prems, of "syncRecord g m" now outage] by (simp add: c)
    with Cons.IH False c show ?thesis by (cases r) simp_all
  qed
qed

lemma syncLoop_stops_at_stored:
  "humans ms = [] \<or> gm_id (hd (humans ms)) \<in> memberIds db \<Longrightarrow>
   syncLoop g now ms outage db = db"
proof (induction ms)
  case Nil
  then show ?case by simp
next
  case (Cons m ms)
  show ?case
  proof (cases "gm_bot m")
    case True
    with Cons show ?thesis by (simp add: humans_def)
  next
    case False
    with Cons.prems have "ins_id (syncRecord g m) \<in> memberIds db"
      by (simp add: humans_def syncRecord_row)
    from createMemberDb_present [OF this, of now outage]
    obtain e l where "createMemberDb (syncRecord g m) now outage db = (Inl e, l, db)"
      by (cases "createMemberDb (syncRecord g m) now outage db" rule: prod_cases3) auto
    with False show ?thesis by simp
  qed
qed

lemma syncLoop_stores_first:
  "outage \<noteq> Some 0 \<Longrightarrow> humans ms \<noteq> [] \<Longrightarrow>
   gm_id (hd (humans ms)) \<in> memberIds (syncLoop g now ms outage db)"
proof (induction ms)
  case Nil
  then show ?case by (simp add: humans_def)
next
  case (Cons m ms)
  show ?case
  proof (cases "gm_bot m")
    case True
    with Cons show ?thesis by (simp add: humans_def)
  next
    case False
    obtain r l d where c: "createMemberDb (syncRecord g m) now outage db = (r, l, d)"
      by (rule prod_cases3)
    have "gm_id m \<in> memberIds d"
      using createMemberDb_members [of "syncRecord g m" now outage db] Cons.prems(1)
      by (auto simp: c memberIds_def syncRecord_row split: if_splits)
    then have "gm_id m \<in> memberIds (case r of Inl e \<Rightarrow> d | Inr u \<Rightarrow> syncLoop g now ms l d)"
      by (cases r) (simp_all add: syncLoop_keeps)
    with False c show ?thesis by (cases r) (simp_all add: humans_def)
  qed
qed

lemma syncLoop_twice:
  assumes "outage1 \<noteq> Some 0"
  shows "syncLoop g t2 ms outage2 (syncLoop g t1 ms outage1 db) = syncLoop g t1 ms outage1 db"
proof (cases "humans ms = []")
  case True
  then show ?thesis by (simp add: syncLoop_stops_at_stored)
next
  case False
  with assms have "gm_id (hd (humans ms)) \<in> memberIds (syncLoop g t1 ms outage1 db)"
    by (rule syncLoop_stores_first)
  then show ?thesis by (simp add: syncLoop_stops_at_stored)
qed

lemma createMemberDb_inserts:
  assumes "int4 (cash (newRow im now))" and "ins_id im \<notin> memberIds db"
  shows "\<exists>db'. createMemberDb im now None db = (Inr (newRow im now), None, db')
           \<and> discord_members db' = discord_members db @ [newRow im now]"
proof -
  obtain db' where u: "updateMemberCountDb now None
      (db\<lparr>discord_members := discord_members db @ [newRow im now]\<rparr>) = (Inr (), None, db')"
    using updateMemberCountDb_reachable by blast
  have "discord_members db' = discord_members db @ [newRow im now]"
    using updateMemberCountDb_frame(1) [of now None
        "db\<lparr>discord_members := discord_members db @ [newRow im now]\<rparr>"]
    by (simp add: u)
  with assms u show ?thesis
    by (simp add: createMemberDb_def memberIds_def Let_def)
qed

lemma syncLoop_fresh:
  "distinct (map gm_id (humans ms)) \<Longrightarrow> gm_id ` set (humans ms) \<inter> memberIds db = {} \<Longrightarrow>
   discord_members (syncLoop g now ms None db) =
     discord_members db @ map (\<lambda>m. newRow (syncRecord g m) now) (humans ms)"
proof (induction ms arbitrary: db)
  case Nil
  then show ?case by (simp add: humans_def)
next
  case (Cons m ms)
  show ?case
  proof (cases "gm_bot m")
    case True
    with Cons show ?thesis by (simp add: humans_def)
  next
    case False
    with Cons.prems have fresh: "ins_id (syncRecord g m) \<notin> memberIds db"
      and d: "distinct (map gm_id (humans ms))" and n: "gm_id m \<notin> gm_id ` set (humans ms)"
      and rest: "gm_id ` set (humans ms) \<inter> memberIds db = {}"
      by (auto simp: humans_def syncRecord_row)
    from createMemberDb_inserts [OF syncRecord_row(2) fresh, of now]
    obtain db' where c: "createMemberDb (syncRecord g m) now None db
          = (Inr (newRow (syncRecord g m) now), None, db')"
      and dm: "discord_members db' = discord_members db @ [newRow (syncRecord g m) now]"
      by blast
    have "memberIds db' = insert (gm_id m) (memberIds db)"
      by (auto simp: memberIds_def dm syncRecord_row)
    with rest n have "gm_id ` set (humans ms) \<inter> memberIds db' = {}" by auto
    from Cons.IH [OF d this] False c dm show ?thesis
      by (simp add: humans_def)
  qed
qed

lemma find_map_update:
  assumes "\<And>m. mid (g m) = mid m"
  shows "find (\<lambda>m. mid m = i) (map (\<lambda>m. if mid m = i then g m else m) xs) =
         map_option g (find (\<lambda>m. mid m = i) xs)"
  using assms by (induction xs) auto

lemma asInt4_of_int [simp]: "asInt4 (Finite (of_int z)) = (if int4 z then Some z else None)"
  by simp

lemma updateMemberCashDb_stored:
  assumes "int4 z" and "outage \<noteq> Some 0"
    and "find (\<lambda>m. mid m = i) (discord_members db) = Some m"
  shows "fst (updateMemberCashDb i (Finite (of_int z)) now outage db)
           = Inr (Some (m\<lparr>cash := z, lastSeen := Some now\<rparr>))"
    and "find (\<lambda>m. mid m = i)
           (discord_members (snd (snd (updateMemberCashDb i (Finite (of_int z)) now outage db))))
           = Some (m\<lparr>cash := z, lastSeen := Some now\<rparr>)"
  using assms
  by (simp_all add: updateMemberCashDb_def Let_def reach_eq_None find_map_update
      split: option.splits)

text \<open>
  An amount the schema lets through and the \<open>integer\<close> column cannot take makes the
  \<open>UPDATE\<close> fail: the handler answers 500 and the balance stays.
\<close>

lemma putMemberCash_unstorable:
  assumes "updateCashSchema (Num a) = Some a" and "asInt4 a = None" and "outage \<noteq> Some 0"
  shows "putMemberCash i (Num a) outage now db = (InternalError500, db)"
  using assms
  by (simp add: putMemberCash_def updateMemberCashDb_def reach_eq_None split: option.splits)

subsection \<open>Kick, ban and the message filter\<close>

lemma kickMember_log_rejected:
  assumes "hasGuild env" and "fetchResult env = Fetched" and "enforceOk env"
    and "createKickLogDb uuid \<lparr>ins_memberId = i, ins_kickedBy = actor, ins_reason = rsn\<rparr>
           now outage (storage b) = (Inl e, l, d)"
  shows "kickMember env outage i actor rsn si uuid now b =
     (False, b\<lparr>discord := discord b @ notifyMember env i rsn si @ [Kick i rsn], storage := d\<rparr>)"
  using assms by (simp add: kickMember_def Let_def)

lemma kickMember_delete_rejected:
  assumes "hasGuild env" and "fetchResult env = Fetched" and "enforceOk env"
    and "createKickLogDb uuid \<lparr>ins_memberId = i, ins_kickedBy = actor, ins_reason = rsn\<rparr>
           now outage (storage b) = (Inr entry, l, d)"
    and "deleteMemberDb i now l d = (Inl e, l2, d2)"
  shows "kickMember env outage i actor rsn si uuid now b =
     (False, b\<lparr>discord := discord b @ notifyMember env i rsn si @ [Kick i rsn], storage := d2\<rparr>)"
  using assms by (simp add: kickMember_def Let_def)

lemma banMember_rejected:
  assumes "hasGuild env" and "fetchResult env = Fetched" and "enforceOk env"
    and "deleteMemberDb i now outage (storage b) = (Inl e, l, d)"
  shows "banMember env outage i actor rsn si now b =
     (False, b\<lparr>discord := discord b @ notifyMember env i rsn si @ [Ban i rsn], storage := d\<rparr>)"
  using assms by (simp add: banMember_def Let_def)

lemma banMember_accepted:
  assumes "hasGuild env" and "fetchResult env = Fetched" and "enforceOk env"
    and "deleteMemberDb i now outage (storage b) = (Inr x, l, d)"
  shows "banMember env outage i actor rsn si now b =
     (\<not> fst (broadcastUpdate ''memberBanned'' (ModerationData i rsn)
               (b\<lparr>discord := discord b @ notifyMember env i rsn si @ [Ban i rsn], storage := d\<rparr>)),
      snd (broadcastUpdate ''memberBanned'' (ModerationData i rsn)
               (b\<lparr>discord := discord b @ notifyMember env i rsn si @ [Ban i rsn], storage := d\<rparr>)))"
  using assms by (simp add: banMember_def Let_def split_beta)

text \<open>
  A kick never gets as far as the publish. When \<open>createKickLog\<close> has returned, a log
  row refers to the member row, so the \<open>DELETE\<close> of \<open>deleteMember\<close> is rejected by the
  foreign key (or does not reach the database); when it has thrown, the \<open>catch\<close>
  has already been reached. In every case \<open>kickMember\<close> returns \<open>false\<close>, no observer
  receives anything, and the member row stays.
\<close>

lemma kickMember_never_publishes:
  "fst (kickMember env outage i actor rsn si uuid now b) = False
   \<and> wsClients (snd (kickMember env outage i actor rsn si uuid now b)) = wsClients b
   \<and> kick_logs (storage (snd (kickMember env outage i actor rsn si uuid now b))) =
       (if hasGuild env \<and> fetchResult env = Fetched \<and> enforceOk env
        then kick_logs (snd (snd (createKickLogDb uuid
               \<lparr>ins_memberId = i, ins_kickedBy = actor, ins_reason = rsn\<rparr> now outage (storage b))))
        else kick_logs (storage b))
   \<and> discord_members (storage (snd (kickMember env outage i actor rsn si uuid now b))) =
       discord_members (storage b)"
proof (cases "hasGuild env \<and> fetchResult env = Fetched \<and> enforceOk env")
  case False
  then show ?thesis
    by (auto simp: kickMember_def split: FetchResult.splits)
next
  case True
  then have a: "hasGuild env" "fetchResult env = Fetched" "enforceOk env" by simp_all
  obtain r l d where c: "createKickLogDb uuid
      \<lparr>ins_memberId = i, ins_kickedBy = actor, ins_reason = rsn\<rparr> now outage (storage b) = (r, l, d)"
    by (rule prod_cases3)
  have dm: "discord_members d = discord_members (storage b)"
    using createKickLogDb_discord_members [of uuid
        "\<lparr>ins_memberId = i, ins_kickedBy = actor, ins_reason = rsn\<rparr>" now outage "storage b"]
    by (simp add: c)
  show ?thesis
  proof (cases r)
    case (Inl e)
    with c have c': "createKickLogDb uuid
      \<lparr>ins_memberId = i, ins_kickedBy = actor, ins_reason = rsn\<rparr> now outage (storage b) = (Inl e, l, d)"
      by simp
    show ?thesis
      using True dm by (simp add: kickMember_log_rejected [OF a c'] c')
  next
    case (Inr entry)
    with c have c': "createKickLogDb uuid
      \<lparr>ins_memberId = i, ins_kickedBy = actor, ins_reason = rsn\<rparr> now outage (storage b) = (Inr entry, l, d)"
      by simp
    from createKickLogDb_Inr [OF c']
    have st: "i \<in> memberIds d" and lg: "i \<in> loggedIds d" by simp_all
    from deleteMemberDb_rejected_keeps [OF st lg, of now l]
    obtain e where "fst (deleteMemberDb i now l d) = Inl e"
      and "snd (snd (deleteMemberDb i now l d)) = d"
      by blast
    then obtain l2 where dl: "deleteMemberDb i now l d = (Inl e, l2, d)"
      by (cases "deleteMemberDb i now l d" rule: prod_cases3) simp
    show ?thesis
      using True dm by (simp add: kickMember_delete_rejected [OF a c' dl] c')
  qed
qed

lemma handleMessageFilter_match:
  assumes "outage \<noteq> Some 0"
    and "containsBlockedWord f (blocked_words (storage b)) (content message)"
    and "deleteOk env" and "noSendThrows (wsClients b)"
  shows "wsClients (handleMessageFilter f env outage message now b) =
           map (deliver (''messageFiltered'',
                  FilteredData (authorId message) (authorUsername message) (content message) now))
               (wsClients b)"
  using assms
  by (simp add: handleMessageFilter_def getAllBlockedWordsDb_def Let_def split_beta
      broadcastUpdate_ok reach_eq_None split: option.splits)

lemma handleMessageFilter_delete_rejected:
  assumes "\<not> deleteOk env"
  shows "handleMessageFilter f env outage message now b = b"
  using assms
  by (simp add: handleMessageFilter_def getAllBlockedWordsDb_def split: option.splits)

subsection \<open>Substring search and letter case\<close>

lemma includes_str_iff: "includes_str s t \<longleftrightarrow> (\<exists>p q. s = p @ t @ q)"
proof (induction s)
  case Nil
  then show ?case by simp
next
  case (Cons c s)
  have sw: "startsWith (c # s) t \<longleftrightarrow> (\<exists>q. c # s = t @ q)"
    unfolding startsWith_def
    by (metis append_eq_conv_conj append_take_drop_id)
  show ?case
  proof
    assume "includes_str (c # s) t"
    then consider "startsWith (c # s) t" | "includes_str s t" by auto
    then show "\<exists>p q. c # s = p @ t @ q"
    proof cases
      case 1
      then obtain q where "c # s = t @ q" using sw by blast
      then have "c # s = [] @ t @ q" by simp
      then show ?thesis by blast
    next
      case 2
      then obtain p q where "s = p @ t @ q" using Cons.IH by blast
      then have "c # s = (c # p) @ t @ q" by simp
      then show ?thesis by blast
    qed
  next
    assume "\<exists>p q. c # s = p @ t @ q"
    then obtain p q where pq: "c # s = p @ t @ q" by blast
    show "includes_str (c # s) t"
    proof (cases p)
      case Nil
      with pq have "c # s = t @ q" by simp
      with sw have "startsWith (c # s) t" by blast
      then show ?thesis by simp
    next
      case (Cons a p')
      with pq have "s = p' @ t @ q" by simp
      with Cons.IH show ?thesis by auto
    qed
  qed
qed

lemma containsBlockedWord_iff:
  "containsBlockedWord f ws text \<longleftrightarrow>
     (\<exists>bw \<in> set ws. \<exists>p q. f text = p @ f (word bw) @ q)"
  by (simp add: containsBlockedWord_def list_ex_iff includes_str_iff)

lemma asciiLower_eq_iff: "asciiLower a = asciiLower b \<longleftrightarrow> sameLetter a b"
  by (auto simp: asciiLower_def sameLetter_def)

lemma map_asciiLower_eq_iff:
  "map asciiLower u = map asciiLower w \<longleftrightarrow> list_all2 sameLetter u w"
proof (induction u arbitrary: w)
  case Nil
  then show ?case by auto
next
  case (Cons a u)
  then show ?case by (cases w) (auto simp: asciiLower_eq_iff)
qed

lemma map_eq_middle:
  "(\<exists>p q. map f text = p @ map f w @ q) \<longleftrightarrow> (\<exists>p u q. text = p @ u @ q \<and> map f u = map f w)"
proof
  assume "\<exists>p q. map f text = p @ map f w @ q"
  then obtain p q where e: "map f text = p @ (map f w @ q)" by auto
  from e [THEN map_eq_append_conv [THEN iffD1]]
  obtain p' r where t: "text = p' @ r" and r: "map f r = map f w @ q"
    by metis
  from r [THEN map_eq_append_conv [THEN iffD1]]
  obtain u q' where "r = u @ q'" and "map f u = map f w"
    by metis
  with t show "\<exists>p u q. text = p @ u @ q \<and> map f u = map f w" by blast
next
  assume "\<exists>p u q. text = p @ u @ q \<and> map f u = map f w"
  then obtain p u q where "text = p @ u @ q" and "map f u = map f w" by blast
  then have "map f text = map f p @ map f w @ map f q" by simp
  then show "\<exists>p q. map f text = p @ map f w @ q" by blast
qed

lemma ascii_match:
  assumes "foldsAscii f" and "isAscii text" and "isAscii w"
  shows "(\<exists>p q. f text = p @ f w @ q) \<longleftrightarrow> occursIgnoringCase w text"
proof -
  from assms have "f text = map asciiLower text" and "f w = map asciiLower w"
    by (simp_all add: foldsAscii_def)
  then show ?thesis
    by (simp only: map_eq_middle map_asciiLower_eq_iff occursIgnoringCase_def)
qed

lemma units_ascii_examples:
  "isAscii (units ''ass'')" "isAscii (units ''mass production'')" "isAscii (units ''ASSIGN'')"
  "map asciiLower (units ''ass'') = units ''ass''"
  "map asciiLower (units ''mass production'') = units ''m'' @ units ''ass'' @ units '' production''"
  "map asciiLower (units ''ASSIGN'') = [] @ units ''ass'' @ units ''ign''"
  by code_simp+

subsection \<open>The concrete inputs\<close>

lemma exDb_rows:
  "discord_members exDb = [newRow (exInsert ''A'') 0]" "kick_logs exDb = []"
  "blocked_words exDb = []"
  by (simp_all add: exDb_def exEmptyDb_def exInsert_def db_defs)

lemma exWordsDb_rows:
  "discord_members exWordsDb = [newRow (exInsert ''A'') 0]" "kick_logs exWordsDb = []"
  "blocked_words exWordsDb =
     [\<lparr>bw_id = ''w1'', word = units ''ass'', createdAt = Some 0, createdBy = ''admin''\<rparr>]"
  by (simp_all add: exWordsDb_def addBlockedWordDb_def exDb_rows Let_def)

lemma exLower_folds: "foldsAscii exLower"
  by (simp add: foldsAscii_def exLower_def)

lemma exWords_match:
  "containsBlockedWord exLower (blocked_words exWordsDb) (units ''mass production'')"
  unfolding containsBlockedWord_iff exWordsDb_rows exLower_def
  using units_ascii_examples(4,5) by (simp del: append.simps) metis

lemma exServer_facts:
  "''A'' \<in> memberIds (storage exServer)" "''A'' \<notin> loggedIds (storage exServer)"
  "''u1'' \<notin> log_id ` set (kick_logs (storage exServer))"
  "noSendThrows (wsClients exServer)" "kick_logs (storage exServer) = []"
  by (simp_all add: exServer_def exDb_rows memberIds_def loggedIds_def exInsert_def
      noSendThrows_def exSocket_def)

lemma exKicked_facts:
  "''A'' \<in> memberIds (storage exKicked)" "''A'' \<in> loggedIds (storage exKicked)"
proof -
  have a: "hasGuild (exEnv True) \<and> fetchResult (exEnv True) = Fetched \<and> enforceOk (exEnv True)"
    by (simp add: exEnv_def)
  note k = kickMember_never_publishes [of "exEnv True" None "''A''" "''web-dashboard''"
      "Some ''spam''" False "''u1''" 1000 exServer]
  from k a exServer_facts show "''A'' \<in> memberIds (storage exKicked)"
    by (simp add: exKicked_def memberIds_def)
  from k a exServer_facts show "''A'' \<in> loggedIds (storage exKicked)"
    by (simp add: exKicked_def loggedIds_def createKickLogDb_kick_logs)
qed

lemma exDb_find: "find (\<lambda>m. mid m = ''A'') (discord_members exDb) = Some (newRow (exInsert ''A'') 0)"
  by (simp add: exDb_rows exInsert_def)

section \<open>Kick and ban: failure of the enforcement call\<close>

text \<open>
  Claim C1. When the enforcement call of \<open>kickMember\<close> or \<open>banMember\<close> rejects, the
  function returns \<open>false\<close>, the storage (members, kick log, statistics, blocked
  words) is the one before the call, so no log entry is written and no member is
  deleted, and the observers have received nothing: no \<open>memberKicked\<close> or
  \<open>memberBanned\<close> is published.
\<close>

theorem enforcement_failure_leaves_store:
  assumes "\<not> enforceOk env"
  shows "fst (kickMember env outage i actor rsn si uuid now b) = False
       \<and> storage (snd (kickMember env outage i actor rsn si uuid now b)) = storage b
       \<and> wsClients (snd (kickMember env outage i actor rsn si uuid now b)) = wsClients b
       \<and> fst (banMember env outage i actor rsn si now b) = False
       \<and> storage (snd (banMember env outage i actor rsn si now b)) = storage b
       \<and> wsClients (snd (banMember env outage i actor rsn si now b)) = wsClients b"
  using assms by (simp add: kickMember_def banMember_def split: FetchResult.splits)

theorem enforcement_failure_leaves_store_witness:
  "\<not> enforceOk (exEnv False)
   \<and> fst (kickMember (exEnv False) None ''A'' ''web-dashboard'' (Some ''spam'') True ''u1'' 1000 exServer) = False
   \<and> storage (snd (kickMember (exEnv False) None ''A'' ''web-dashboard'' (Some ''spam'') True ''u1'' 1000 exServer)) = storage exServer
   \<and> wsClients (snd (kickMember (exEnv False) None ''A'' ''web-dashboard'' (Some ''spam'') True ''u1'' 1000 exServer)) = wsClients exServer
   \<and> fst (banMember (exEnv False) None ''A'' ''web-dashboard'' (Some ''spam'') True 1000 exServer) = False
   \<and> storage (snd (banMember (exEnv False) None ''A'' ''web-dashboard'' (Some ''spam'') True 1000 exServer)) = storage exServer
   \<and> wsClients (snd (banMember (exEnv False) None ''A'' ''web-dashboard'' (Some ''spam'') True 1000 exServer)) = wsClients exServer"
proof -
  have h: "\<not> enforceOk (exEnv False)" by (simp add: exEnv_def)
  from enforcement_failure_leaves_store [OF h] h show ?thesis by blast
qed

section \<open>Kick and ban: the steps after a successful enforcement call\<close>

text \<open>
  Claim C2, as the code has it by design. Once the guild and the member are found
  and the enforcement call resolves, whatever the notice step did:
  \<^item> the first storage step of \<open>kickMember\<close> writes the log entry: when the insert
    reaches the database, the member is stored and the log id is new, the kick log
    afterwards is the old one with the entry \<open>{memberId, kickedBy, reason,
    kickedAt}\<close> appended, whatever the later steps do;
  \<^item> \<open>banMember\<close> has no log step: it leaves the kick log as it was;
  \<^item> \<open>banMember\<close> deletes the member and then publishes: with the database
    reachable, no log entry referring to the member and no \<open>send\<close> raising, it
    returns \<open>true\<close>, the member is gone and every open observer has received
    \<open>memberBanned\<close> with \<open>{id, reason}\<close>;
  \<^item> the publish comes after the delete: when the delete is rejected (the member is
    stored and a log entry refers to it), \<open>banMember\<close> returns \<open>false\<close>, and store
    and observers are as before.
\<close>

theorem moderation_success_steps:
  assumes "hasGuild env" and "fetchResult env = Fetched" and "enforceOk env"
  shows "(outage \<noteq> Some 0 \<and> i \<in> memberIds (storage b)
            \<and> uuid \<notin> log_id ` set (kick_logs (storage b)) \<longrightarrow>
           kick_logs (storage (snd (kickMember env outage i actor rsn si uuid now b))) =
             kick_logs (storage b) @
               [\<lparr>log_id = uuid, memberId = i, kickedBy = actor, reason = strOrNull rsn,
                  kickedAt = Some now\<rparr>])
       \<and> kick_logs (storage (snd (banMember env outage i actor rsn si now b))) = kick_logs (storage b)
       \<and> (i \<notin> loggedIds (storage b) \<and> noSendThrows (wsClients b) \<longrightarrow>
            fst (banMember env None i actor rsn si now b)
            \<and> i \<notin> memberIds (storage (snd (banMember env None i actor rsn si now b)))
            \<and> wsClients (snd (banMember env None i actor rsn si now b)) =
                map (deliver (''memberBanned'', ModerationData i rsn)) (wsClients b))
       \<and> (i \<in> memberIds (storage b) \<and> i \<in> loggedIds (storage b) \<longrightarrow>
            \<not> fst (banMember env outage i actor rsn si now b)
            \<and> storage (snd (banMember env outage i actor rsn si now b)) = storage b
            \<and> wsClients (snd (banMember env outage i actor rsn si now b)) = wsClients b)"
proof -
  have k: "kick_logs (storage (snd (kickMember env outage i actor rsn si uuid now b))) =
             kick_logs (storage b) @
               [\<lparr>log_id = uuid, memberId = i, kickedBy = actor, reason = strOrNull rsn,
                  kickedAt = Some now\<rparr>]"
    if "outage \<noteq> Some 0" "i \<in> memberIds (storage b)"
       "uuid \<notin> log_id ` set (kick_logs (storage b))"
    using that assms kickMember_never_publishes [of env outage i actor rsn si uuid now b]
    by (simp add: createKickLogDb_kick_logs)
  have b1: "kick_logs (storage (snd (banMember env outage i actor rsn si now b))) = kick_logs (storage b)"
  proof -
    obtain r l d where dl: "deleteMemberDb i now outage (storage b) = (r, l, d)"
      by (rule prod_cases3)
    have kl: "kick_logs d = kick_logs (storage b)"
      using deleteMemberDb_kick_logs [of i now outage "storage b"] by (simp add: dl)
    show ?thesis
    proof (cases r)
      case (Inl e)
      with dl kl show ?thesis by (simp add: banMember_rejected [OF assms])
    next
      case (Inr x)
      with dl kl show ?thesis by (simp add: banMember_accepted [OF assms])
    qed
  qed
  have b2: "fst (banMember env None i actor rsn si now b)
            \<and> i \<notin> memberIds (storage (snd (banMember env None i actor rsn si now b)))
            \<and> wsClients (snd (banMember env None i actor rsn si now b)) =
                map (deliver (''memberBanned'', ModerationData i rsn)) (wsClients b)"
    if free: "i \<notin> loggedIds (storage b)" and ok: "noSendThrows (wsClients b)"
  proof -
    from deleteMemberDb_reachable [OF free, of now] obtain db' where
      dl: "deleteMemberDb i now None (storage b) = (Inr (i \<in> memberIds (storage b)), None, db')"
      and gone: "i \<notin> memberIds db'"
      by blast
    show ?thesis
      using gone ok
      by (simp add: banMember_accepted [OF assms dl] broadcastUpdate_ok)
  qed
  have b3: "\<not> fst (banMember env outage i actor rsn si now b)
            \<and> storage (snd (banMember env outage i actor rsn si now b)) = storage b
            \<and> wsClients (snd (banMember env outage i actor rsn si now b)) = wsClients b"
    if st: "i \<in> memberIds (storage b)" and lg: "i \<in> loggedIds (storage b)"
  proof -
    from deleteMemberDb_rejected_keeps [OF st lg, of now outage]
    obtain e where "fst (deleteMemberDb i now outage (storage b)) = Inl e"
      and "snd (snd (deleteMemberDb i now outage (storage b))) = storage b"
      by blast
    then obtain l where "deleteMemberDb i now outage (storage b) = (Inl e, l, storage b)"
      by (cases "deleteMemberDb i now outage (storage b)" rule: prod_cases3) simp
    then show ?thesis by (simp add: banMember_rejected [OF assms])
  qed
  from k b1 b2 b3 show ?thesis by blast
qed

theorem moderation_success_steps_witness:
  "hasGuild (exEnv True) \<and> fetchResult (exEnv True) = Fetched \<and> enforceOk (exEnv True)
   \<and> (None :: nat option) \<noteq> Some 0
   \<and> ''A'' \<in> memberIds (storage exServer)
   \<and> ''u1'' \<notin> log_id ` set (kick_logs (storage exServer))
   \<and> kick_logs (storage (snd (kickMember (exEnv True) None ''A'' ''web-dashboard''
        (Some ''spam'') False ''u1'' 1000 exServer))) =
        kick_logs (storage exServer) @
          [\<lparr>log_id = ''u1'', memberId = ''A'', kickedBy = ''web-dashboard'',
             reason = strOrNull (Some ''spam''), kickedAt = Some 1000\<rparr>]
   \<and> ''A'' \<notin> loggedIds (storage exServer) \<and> noSendThrows (wsClients exServer)
   \<and> fst (banMember (exEnv True) None ''A'' ''web-dashboard'' (Some ''spam'') False 1000 exServer)
   \<and> ''A'' \<notin> memberIds (storage (snd (banMember (exEnv True) None ''A'' ''web-dashboard''
        (Some ''spam'') False 1000 exServer)))
   \<and> wsClients (snd (banMember (exEnv True) None ''A'' ''web-dashboard''
        (Some ''spam'') False 1000 exServer)) =
        map (deliver (''memberBanned'', ModerationData ''A'' (Some ''spam''))) (wsClients exServer)
   \<and> ''A'' \<in> memberIds (storage exKicked) \<and> ''A'' \<in> loggedIds (storage exKicked)
   \<and> \<not> fst (banMember (exEnv True) None ''A'' ''web-dashboard'' (Some ''spam'') False 2000 exKicked)
   \<and> storage (snd (banMember (exEnv True) None ''A'' ''web-dashboard'' (Some ''spam'') False
        2000 exKicked)) = storage exKicked
   \<and> wsClients (snd (banMember (exEnv True) None ''A'' ''web-dashboard'' (Some ''spam'') False
        2000 exKicked)) = wsClients exKicked"
proof -
  have h1: "hasGuild (exEnv True)" and h2: "fetchResult (exEnv True) = Fetched"
    and h3: "enforceOk (exEnv True)"
    by (simp_all add: exEnv_def)
  have h4: "(None :: nat option) \<noteq> Some 0" by simp
  note f = exServer_facts(1-4) and g = exKicked_facts
  from moderation_success_steps [OF h1 h2 h3, where b = exServer and outage = None
         and i = "''A''" and uuid = "''u1''" and now = 1000 and actor = "''web-dashboard''"
         and rsn = "Some ''spam''" and si = False]
       moderation_success_steps [OF h1 h2 h3, where b = exKicked and outage = None
         and i = "''A''" and now = 2000 and actor = "''web-dashboard''"
         and rsn = "Some ''spam''" and si = False]
       h1 h2 h3 h4 f g
  show ?thesis by blast
qed

text \<open>
  Claim C2 as stated fails twice. A ban whose enforcement call resolves returns
  \<open>true\<close>, deletes member \<open>A\<close> and publishes \<open>memberBanned\<close>, and the kick log is
  still empty. A kick whose enforcement call resolves writes the log entry, then
  its delete is rejected: it returns \<open>false\<close>, member \<open>A\<close> is still stored and the
  open observer has received nothing.
\<close>

theorem ban_logs_nothing_kick_stops_at_delete:
  "fst (banMember (exEnv True) None ''A'' ''web-dashboard'' (Some ''spam'') False 1000 exServer)
   \<and> map mid (discord_members (storage exServer)) = [''A'']
   \<and> discord_members (storage (snd (banMember (exEnv True) None ''A'' ''web-dashboard''
        (Some ''spam'') False 1000 exServer))) = []
   \<and> map received (wsClients (snd (banMember (exEnv True) None ''A'' ''web-dashboard''
        (Some ''spam'') False 1000 exServer)))
       = [[(''memberBanned'', ModerationData ''A'' (Some ''spam''))]]
   \<and> kick_logs (storage (snd (banMember (exEnv True) None ''A'' ''web-dashboard''
        (Some ''spam'') False 1000 exServer))) = []
   \<and> \<not> fst (kickMember (exEnv True) None ''A'' ''web-dashboard'' (Some ''spam'') False ''u1''
          1000 exServer)
   \<and> map memberId (kick_logs (storage (snd (kickMember (exEnv True) None ''A'' ''web-dashboard''
        (Some ''spam'') False ''u1'' 1000 exServer)))) = [''A'']
   \<and> map mid (discord_members (storage (snd (kickMember (exEnv True) None ''A'' ''web-dashboard''
        (Some ''spam'') False ''u1'' 1000 exServer)))) = [''A'']
   \<and> map received (wsClients (snd (kickMember (exEnv True) None ''A'' ''web-dashboard''
        (Some ''spam'') False ''u1'' 1000 exServer))) = [[]]"
  by (simp add: banMember_def kickMember_def exEnv_def exServer_def exDb_def exEmptyDb_def
      exInsert_def exSocket_def broadcastUpdate_def notifyMember_def truthy_def db_defs)

section \<open>Message filter: the broadcast of a filtered message\<close>

text \<open>
  Claim C3, as the code has it. When a message of a non-bot author contains a
  blocked word (the blocked-word query having reached the database) and its removal
  succeeds, then, provided no \<open>send\<close> raises, every observer whose socket is open
  receives the \<open>messageFiltered\<close> envelope with the author id, the author's
  username, the content and the timestamp, whether the notice in the channel
  succeeds or fails (\<open>notice\<close> is either). When the removal fails, the handler
  leaves the whole state as it was: no notice, no broadcast.
\<close>

theorem filtered_message_broadcast:
  "(\<not> authorBot message \<and> outage \<noteq> Some 0
      \<and> containsBlockedWord toLowerCase (blocked_words (storage b)) (content message)
      \<and> deleteOk env \<and> noSendThrows (wsClients b) \<longrightarrow>
        wsClients (onMessageCreate toLowerCase (env\<lparr>channelSendOk := notice\<rparr>) outage message now b) =
           map (deliver (''messageFiltered'',
                  FilteredData (authorId message) (authorUsername message) (content message) now))
               (wsClients b))
   \<and> (\<not> deleteOk env \<longrightarrow> onMessageCreate toLowerCase env outage message now b = b)"
  by (simp add: onMessageCreate_def handleMessageFilter_match handleMessageFilter_delete_rejected)

theorem filtered_message_broadcast_witness:
  "\<not> authorBot (exMessage ''mass production'')
   \<and> (None :: nat option) \<noteq> Some 0
   \<and> containsBlockedWord exLower (blocked_words (storage exWordsServer))
        (content (exMessage ''mass production''))
   \<and> deleteOk \<lparr>deleteOk = True, channelSendOk = True\<rparr>
   \<and> noSendThrows (wsClients exWordsServer)
   \<and> map received (wsClients (onMessageCreate exLower
        (\<lparr>deleteOk = True, channelSendOk = True\<rparr>\<lparr>channelSendOk := False\<rparr>) None
        (exMessage ''mass production'') 1000 exWordsServer))
       = [[(''messageFiltered'', FilteredData ''A'' ''alice'' (units ''mass production'') 1000)]]
   \<and> \<not> deleteOk \<lparr>deleteOk = False, channelSendOk = True\<rparr>
   \<and> onMessageCreate exLower \<lparr>deleteOk = False, channelSendOk = True\<rparr> None
        (exMessage ''mass production'') 1000 exWordsServer = exWordsServer"
proof -
  have h1: "\<not> authorBot (exMessage ''mass production'')" by (simp add: exMessage_def)
  have h0: "(None :: nat option) \<noteq> Some 0" by simp
  have h2: "containsBlockedWord exLower (blocked_words (storage exWordsServer))
        (content (exMessage ''mass production''))"
    by (simp add: exMessage_def exWordsServer_def exWords_match)
  have h3: "deleteOk \<lparr>deleteOk = True, channelSendOk = True\<rparr>" by simp
  have h4: "noSendThrows (wsClients exWordsServer)"
    by (simp add: exWordsServer_def exServer_def noSendThrows_def exSocket_def)
  have h5: "\<not> deleteOk \<lparr>deleteOk = False, channelSendOk = True\<rparr>" by simp
  from filtered_message_broadcast [where message = "exMessage ''mass production''"
         and outage = None and toLowerCase = exLower and b = exWordsServer
         and env = "\<lparr>deleteOk = True, channelSendOk = True\<rparr>" and notice = False and now = 1000]
       h1 h0 h2 h3 h4
  have "wsClients (onMessageCreate exLower
        (\<lparr>deleteOk = True, channelSendOk = True\<rparr>\<lparr>channelSendOk := False\<rparr>) None
        (exMessage ''mass production'') 1000 exWordsServer)
       = map (deliver (''messageFiltered'',
                FilteredData (authorId (exMessage ''mass production''))
                  (authorUsername (exMessage ''mass production''))
                  (content (exMessage ''mass production'')) 1000))
           (wsClients exWordsServer)"
    by blast
  then have a: "map received (wsClients (onMessageCreate exLower
        (\<lparr>deleteOk = True, channelSendOk = True\<rparr>\<lparr>channelSendOk := False\<rparr>) None
        (exMessage ''mass production'') 1000 exWordsServer))
       = [[(''messageFiltered'', FilteredData ''A'' ''alice'' (units ''mass production'') 1000)]]"
    by (simp add: exWordsServer_def exServer_def exSocket_def deliver_def exMessage_def)
  from filtered_message_broadcast [where message = "exMessage ''mass production''"
         and outage = None and toLowerCase = exLower and b = exWordsServer
         and env = "\<lparr>deleteOk = False, channelSendOk = True\<rparr>" and now = 1000] h5
  have b: "onMessageCreate exLower \<lparr>deleteOk = False, channelSendOk = True\<rparr> None
        (exMessage ''mass production'') 1000 exWordsServer = exWordsServer"
    by blast
  from h1 h0 h2 h3 h4 a h5 b show ?thesis by blast
qed

text \<open>
  Claim C3 as stated fails when the removal fails: \<open>message.delete()\<close> is awaited
  outside the inner \<open>try\<close>, so its rejection reaches the outer \<open>catch\<close> and the open
  observer receives nothing.
\<close>

theorem removal_failure_suppresses_broadcast:
  "\<not> authorBot (exMessage ''mass production'')
   \<and> containsBlockedWord exLower (blocked_words (storage exWordsServer))
        (content (exMessage ''mass production''))
   \<and> map readyState (wsClients exWordsServer) = [OPEN]
   \<and> map received (wsClients (onMessageCreate exLower \<lparr>deleteOk = False, channelSendOk = True\<rparr>
        None (exMessage ''mass production'') 1000 exWordsServer)) = [[]]"
proof -
  have "onMessageCreate exLower \<lparr>deleteOk = False, channelSendOk = True\<rparr>
        None (exMessage ''mass production'') 1000 exWordsServer = exWordsServer"
    by (simp add: onMessageCreate_def handleMessageFilter_delete_rejected)
  then show ?thesis
    by (simp add: exMessage_def exWords_match exWordsServer_def exServer_def exSocket_def)
qed

section \<open>Broadcast fanout\<close>

text \<open>
  Claim C4, as the code has it. When no \<open>send\<close> raises, a publish returns normally
  and gives the envelope to every registered observer whose socket is \<open>OPEN\<close>; two
  publishes in a row reach each such observer in the order they were issued; an
  observer whose socket is not open is skipped. A publish, whether or not a \<open>send\<close>
  raises, leaves the registry with the same observers in the same order; the close
  handler of a socket is what removes its observer.
\<close>

theorem broadcast_fanout_open:
  "(noSendThrows (wsClients b) \<longrightarrow>
      broadcastUpdate t1 d1 b = (False, b\<lparr>wsClients := map (deliver (t1, d1)) (wsClients b)\<rparr>)
      \<and> snd (broadcastUpdate t2 d2 (snd (broadcastUpdate t1 d1 b)))
          = b\<lparr>wsClients := map (deliver (t2, d2) \<circ> deliver (t1, d1)) (wsClients b)\<rparr>)
   \<and> (\<forall>ws \<in> set (wsClients b). readyState ws = OPEN \<longrightarrow>
         received (deliver (t1, d1) ws) = received ws @ [(t1, d1)] \<and>
         received ((deliver (t2, d2) \<circ> deliver (t1, d1)) ws) = received ws @ [(t1, d1), (t2, d2)])
   \<and> (\<forall>ws \<in> set (wsClients b). readyState ws \<noteq> OPEN \<longrightarrow> deliver (t1, d1) ws = ws)
   \<and> map ws_id (wsClients (snd (broadcastUpdate t1 d1 b))) = map ws_id (wsClients b)
   \<and> map ws_id (wsClients (onWsClose i b)) = filter (\<lambda>j. j \<noteq> i) (map ws_id (wsClients b))"
proof -
  have one: "broadcastUpdate t1 d1 b = (False, b\<lparr>wsClients := map (deliver (t1, d1)) (wsClients b)\<rparr>)"
    if "noSendThrows (wsClients b)"
    using that by (rule broadcastUpdate_ok)
  have two: "snd (broadcastUpdate t2 d2 (snd (broadcastUpdate t1 d1 b)))
           = b\<lparr>wsClients := map (deliver (t2, d2) \<circ> deliver (t1, d1)) (wsClients b)\<rparr>"
    if ok: "noSendThrows (wsClients b)"
  proof -
    have "noSendThrows (wsClients (b\<lparr>wsClients := map (deliver (t1, d1)) (wsClients b)\<rparr>))"
      using ok by (simp add: noSendThrows_deliver)
    then show ?thesis by (simp add: one [OF ok] broadcastUpdate_ok)
  qed
  have ids: "map ws_id (wsClients (snd (broadcastUpdate t1 d1 b))) = map ws_id (wsClients b)"
    by (simp add: broadcastUpdate_def split_beta forEachSend_ids)
  have close: "map ws_id (wsClients (onWsClose i b)) = filter (\<lambda>j. j \<noteq> i) (map ws_id (wsClients b))"
    by (simp add: onWsClose_def filter_map comp_def)
  show ?thesis
    using one two ids close by (simp add: deliver_def)
qed

theorem broadcast_fanout_open_witness:
  "noSendThrows (wsClients (exServer\<lparr>wsClients := [exSocket 1 OPEN False, exSocket 2 CLOSED True]\<rparr>))
   \<and> map received (wsClients (snd (broadcastUpdate ''memberLeft'' (IdData ''B'')
        (snd (broadcastUpdate ''memberJoined'' (JoinedData (exInsert ''B''))
           (exServer\<lparr>wsClients := [exSocket 1 OPEN False, exSocket 2 CLOSED True]\<rparr>))))))
      = [[(''memberJoined'', JoinedData (exInsert ''B'')), (''memberLeft'', IdData ''B'')], []]"
proof -
  have h: "noSendThrows (wsClients (exServer\<lparr>wsClients := [exSocket 1 OPEN False, exSocket 2 CLOSED True]\<rparr>))"
    by (simp add: noSendThrows_def exSocket_def)
  have r: "snd (broadcastUpdate ''memberLeft'' (IdData ''B'')
        (snd (broadcastUpdate ''memberJoined'' (JoinedData (exInsert ''B''))
           (exServer\<lparr>wsClients := [exSocket 1 OPEN False, exSocket 2 CLOSED True]\<rparr>))))
      = (exServer\<lparr>wsClients := [exSocket 1 OPEN False, exSocket 2 CLOSED True]\<rparr>)
          \<lparr>wsClients := map (deliver (''memberLeft'', IdData ''B'')
                            \<circ> deliver (''memberJoined'', JoinedData (exInsert ''B'')))
             (wsClients (exServer\<lparr>wsClients := [exSocket 1 OPEN False, exSocket 2 CLOSED True]\<rparr>))\<rparr>"
    using broadcast_fanout_open [where b = "exServer\<lparr>wsClients := [exSocket 1 OPEN False, exSocket 2 CLOSED True]\<rparr>"] h
    by blast
  have "map received (wsClients (snd (broadcastUpdate ''memberLeft'' (IdData ''B'')
        (snd (broadcastUpdate ''memberJoined'' (JoinedData (exInsert ''B''))
           (exServer\<lparr>wsClients := [exSocket 1 OPEN False, exSocket 2 CLOSED True]\<rparr>))))))
      = [[(''memberJoined'', JoinedData (exInsert ''B'')), (''memberLeft'', IdData ''B'')], []]"
    unfolding r by (simp add: deliver_def exSocket_def)
  with h show ?thesis by blast
qed

text \<open>
  Claim C4 as stated fails. With three open observers of which the second raises in
  \<open>send\<close>, the first receives the envelope, the third does not, and the second is
  still registered. With a closed observer and an open one, the closed one receives
  nothing and is still registered.
\<close>

theorem broadcast_stops_at_failing_observer:
  "map received (wsClients (snd (broadcastUpdate ''memberLeft'' (IdData ''B'')
      (exServer\<lparr>wsClients := [exSocket 1 OPEN False, exSocket 2 OPEN True, exSocket 3 OPEN False]\<rparr>))))
     = [[(''memberLeft'', IdData ''B'')], [], []]
   \<and> map ws_id (wsClients (snd (broadcastUpdate ''memberLeft'' (IdData ''B'')
      (exServer\<lparr>wsClients := [exSocket 1 OPEN False, exSocket 2 OPEN True, exSocket 3 OPEN False]\<rparr>))))
     = [1, 2, 3]
   \<and> map received (wsClients (snd (broadcastUpdate ''memberLeft'' (IdData ''B'')
      (exServer\<lparr>wsClients := [exSocket 1 CLOSED False, exSocket 2 OPEN False]\<rparr>))))
     = [[], [(''memberLeft'', IdData ''B'')]]
   \<and> map ws_id (wsClients (snd (broadcastUpdate ''memberLeft'' (IdData ''B'')
      (exServer\<lparr>wsClients := [exSocket 1 CLOSED False, exSocket 2 OPEN False]\<rparr>))))
     = [1, 2]"
  by (simp add: broadcastUpdate_def exSocket_def)

section \<open>Snapshot sync\<close>

text \<open>
  Claim C5. \<open>createMember\<close> of the storage the service runs on is a plain insert: on
  a stored id it is rejected and changes nothing. So when the first statement of a
  sync run has reached the database, a second run over the same upstream data,
  at any later time and whether or not the database stays reachable, leaves the
  whole state as the first run left it, timestamps included; called twice with the
  same input, \<open>createMember\<close> leaves what the first call left. And the first run
  does store: with the database reachable, upstream ids distinct and none of them
  stored before, the members after both runs are the old rows followed by one row
  per non-bot upstream member, stamped with the time of the first run.
\<close>

theorem sync_twice_is_sync_once:
  assumes "outage1 \<noteq> Some 0"
  shows "syncMembers guild outage2 t2 (syncMembers guild outage1 t1 b)
           = syncMembers guild outage1 t1 b
       \<and> snd (snd (createMemberDb im t2 outage2 (snd (snd (createMemberDb im t1 outage1 db)))))
           = snd (snd (createMemberDb im t1 outage1 db))
       \<and> (fetchMembers g = Some ms \<and> distinct (map gm_id (humans ms))
            \<and> gm_id ` set (humans ms) \<inter> memberIds (storage b) = {} \<longrightarrow>
          discord_members (storage (syncMembers (Some g) outage2 t2 (syncMembers (Some g) None t1 b)))
            = discord_members (storage b) @ map (\<lambda>m. newRow (syncRecord g m) t1) (humans ms))"
proof -
  have a: "syncMembers guild outage2 t2 (syncMembers guild outage1 t1 b)
           = syncMembers guild outage1 t1 b" for guild
    using assms by (simp add: syncMembers_def syncLoop_twice split: option.splits)
  have a': "syncMembers guild outage2 t2 (syncMembers guild None t1 b)
           = syncMembers guild None t1 b" for guild
    by (simp add: syncMembers_def syncLoop_twice split: option.splits)
  have c: "discord_members (storage (syncMembers (Some g) outage2 t2 (syncMembers (Some g) None t1 b)))
            = discord_members (storage b) @ map (\<lambda>m. newRow (syncRecord g m) t1) (humans ms)"
    if "fetchMembers g = Some ms" "distinct (map gm_id (humans ms))"
       "gm_id ` set (humans ms) \<inter> memberIds (storage b) = {}"
    unfolding a' using that by (simp add: syncMembers_def syncLoop_fresh)
  from a c createMemberDb_twice [OF assms] show ?thesis by blast
qed

theorem sync_twice_is_sync_once_witness:
  "(None :: nat option) \<noteq> Some 0
   \<and> syncMembers (Some exGuild) (Some 1) 2000 (syncMembers (Some exGuild) None 1000 exEmpty)
       = syncMembers (Some exGuild) None 1000 exEmpty
   \<and> fetchMembers exGuild = Some (the (fetchMembers exGuild))
   \<and> distinct (map gm_id (humans (the (fetchMembers exGuild))))
   \<and> gm_id ` set (humans (the (fetchMembers exGuild))) \<inter> memberIds (storage exEmpty) = {}
   \<and> map mid (discord_members (storage
        (syncMembers (Some exGuild) (Some 1) 2000 (syncMembers (Some exGuild) None 1000 exEmpty))))
       = [''A'']
   \<and> map lastSeen (discord_members (storage
        (syncMembers (Some exGuild) (Some 1) 2000 (syncMembers (Some exGuild) None 1000 exEmpty))))
       = [Some 1000]"
proof -
  have h: "(None :: nat option) \<noteq> Some 0" by simp
  have f: "fetchMembers exGuild = Some (the (fetchMembers exGuild))"
    and d: "distinct (map gm_id (humans (the (fetchMembers exGuild))))"
    and e: "gm_id ` set (humans (the (fetchMembers exGuild))) \<inter> memberIds (storage exEmpty) = {}"
    by (simp_all add: exGuild_def humans_def exEmpty_def exEmptyDb_def memberIds_def)
  note t = sync_twice_is_sync_once [OF h, where guild = "Some exGuild" and ?outage2.0 = "Some 1"
         and ?t2.0 = 2000 and ?t1.0 = 1000 and b = exEmpty and g = exGuild
         and ms = "the (fetchMembers exGuild)"]
  from t have one: "syncMembers (Some exGuild) (Some 1) 2000 (syncMembers (Some exGuild) None 1000 exEmpty)
       = syncMembers (Some exGuild) None 1000 exEmpty"
    by blast
  from t f d e have rows: "discord_members (storage
        (syncMembers (Some exGuild) (Some 1) 2000 (syncMembers (Some exGuild) None 1000 exEmpty)))
       = discord_members (storage exEmpty)
           @ map (\<lambda>m. newRow (syncRecord exGuild m) 1000) (humans (the (fetchMembers exGuild)))"
    by blast
  have "map mid (discord_members (storage
        (syncMembers (Some exGuild) (Some 1) 2000 (syncMembers (Some exGuild) None 1000 exEmpty))))
       = [''A'']
   \<and> map lastSeen (discord_members (storage
        (syncMembers (Some exGuild) (Some 1) 2000 (syncMembers (Some exGuild) None 1000 exEmpty))))
       = [Some 1000]"
    unfolding rows
    by (simp add: exGuild_def humans_def exEmpty_def exEmptyDb_def syncRecord_def newRow_def)
  with h one f d e show ?thesis by blast
qed

section \<open>Statistics recompute\<close>

text \<open>
  Claim C6, as the code has it. \<open>createMember\<close>, and \<open>updateMember\<close> and
  \<open>deleteMember\<close> on a present id, recompute the statistics before returning, so the
  row agrees with the member map at that instant; on an absent id the latter two
  change nothing. \<open>updateMemberCash\<close>, \<open>addMemberCash\<close>, \<open>addMemberRole\<close> and
  \<open>removeMemberRole\<close> leave the statistics row as it was.
\<close>

theorem recompute_on_create_update_delete:
  "statsInSync now (snd (createMember im now s))
   \<and> (getMember i s \<noteq> None \<longrightarrow> statsInSync now (snd (updateMember i ups now s)))
   \<and> (getMember i s \<noteq> None \<longrightarrow> statsInSync now (snd (deleteMember i now s)))
   \<and> (getMember i s = None \<longrightarrow> snd (updateMember i ups now s) = s \<and> snd (deleteMember i now s) = s)
   \<and> stats (snd (updateMemberCash i a now s)) = stats s
   \<and> stats (snd (addMemberCash i a now s)) = stats s
   \<and> stats (snd (addMemberRole i r now s)) = stats s
   \<and> stats (snd (removeMemberRole i r now s)) = stats s"
proof -
  have c: "statsInSync now (snd (createMember im now s))"
    by (simp add: createMember_def Let_def statsInSync_updateMemberCount)
  have u: "statsInSync now (snd (updateMember i ups now s))" if "getMember i s \<noteq> None"
    using that
    by (auto simp: updateMember_def getMember_def Let_def statsInSync_updateMemberCount)
  have d: "statsInSync now (snd (deleteMember i now s))" if "getMember i s \<noteq> None"
    using that
    by (simp add: deleteMember_def present_iff statsInSync_updateMemberCount)
  have n: "snd (updateMember i ups now s) = s \<and> snd (deleteMember i now s) = s"
    if "getMember i s = None"
    using that present_iff [of i s]
    by (simp add: updateMember_def deleteMember_def getMember_def)
  have k: "stats (snd (updateMemberCash i a now s)) = stats s"
      "stats (snd (addMemberCash i a now s)) = stats s"
      "stats (snd (addMemberRole i r now s)) = stats s"
      "stats (snd (removeMemberRole i r now s)) = stats s"
    by (simp_all add: updateMemberCash_def addMemberCash_def addMemberRole_def
        removeMemberRole_def Let_def split: option.splits)
  from c u d n k show ?thesis by blast
qed

theorem recompute_on_create_update_delete_witness:
  "getMember ''A'' exStore \<noteq> None
   \<and> getMember ''Z'' exStore = None
   \<and> statsInSync 1000 (snd (updateMember ''A'' [SetStatus ''online''] 1000 exStore))
   \<and> statsInSync 1000 (snd (deleteMember ''A'' 1000 exStore))
   \<and> snd (updateMember ''Z'' [SetStatus ''online''] 1000 exStore) = exStore
   \<and> snd (deleteMember ''Z'' 1000 exStore) = exStore
   \<and> stats (snd (updateMemberCash ''A'' 7 1000 exStore)) = stats exStore"
proof -
  have h: "getMember ''A'' exStore \<noteq> None"
    by (simp add: example_defs storage_defs)
  have z: "getMember ''Z'' exStore = None"
    by (simp add: example_defs storage_defs)
  from recompute_on_create_update_delete [where now = 1000 and s = exStore and i = "''A''"
         and ups = "[SetStatus ''online'']" and a = 7]
       recompute_on_create_update_delete [where now = 1000 and s = exStore and i = "''Z''"
         and ups = "[SetStatus ''online'']"]
       h z
  show ?thesis by blast
qed

text \<open>
  Claim C6 as stated fails for \<open>updateMemberCash\<close>: with \<open>A\<close> last seen two days ago
  and \<open>B\<close> just created, the row is in sync and reports one active member; setting
  the balance of \<open>A\<close> makes two members pass the activity filter while the row still
  reports one.
\<close>

theorem cash_update_leaves_stats_stale:
  "statsInSync 172800000 exTwo
   \<and> fst (updateMemberCash ''A'' 5 172800000 exTwo) \<noteq> None
   \<and> activeToday (stats (snd (updateMemberCash ''A'' 5 172800000 exTwo))) = 1
   \<and> length (filter (seenSince (dayAgo 172800000))
        (getAllMembers (snd (updateMemberCash ''A'' 5 172800000 exTwo)))) = 2
   \<and> \<not> statsInSync 172800000 (snd (updateMemberCash ''A'' 5 172800000 exTwo))"
  by (simp add: statsInSync_def exTwo_def example_defs storage_defs)

section \<open>The member count\<close>

text \<open>
  Claim C7, as the code has it. After a sequence of \<open>createMember\<close> and
  \<open>deleteMember\<close> calls, \<open>totalMembers\<close> equals the number of member records,
  when it did so at the start (as in a new store) or when some call of the sequence
  wrote to the member map.
\<close>

theorem totalMembers_after_ops:
  "totalMembers (stats s) = length (getAllMembers s) \<or> mutates ops s \<Longrightarrow>
   totalMembers (stats (applyOps ops s)) = length (getAllMembers (applyOps ops s))"
proof (induction ops arbitrary: s)
  case Nil
  then show ?case by simp
next
  case (Cons x xs)
  from Cons.prems consider
      "totalMembers (stats s) = length (getAllMembers s)"
    | "writes x s"
    | "mutates xs (applyOp x s)"
    by auto
  then have "totalMembers (stats (applyOp x s)) = length (getAllMembers (applyOp x s))
             \<or> mutates xs (applyOp x s)"
  proof cases
    case 1
    then show ?thesis by (simp add: applyOp_keeps_count)
  next
    case 2
    then show ?thesis by (simp add: writes_sets_count)
  next
    case 3
    then show ?thesis by simp
  qed
  then show ?case using Cons.IH by simp
qed

theorem totalMembers_after_ops_witness:
  "mutates [DeleteOp ''ghost'' 5, CreateOp (exInsert ''A'') 10, DeleteOp ''A'' 20] exStale
   \<and> totalMembers (stats exStale) \<noteq> length (getAllMembers exStale)
   \<and> totalMembers (stats (applyOps [DeleteOp ''ghost'' 5, CreateOp (exInsert ''A'') 10, DeleteOp ''A'' 20] exStale))
       = length (getAllMembers (applyOps [DeleteOp ''ghost'' 5, CreateOp (exInsert ''A'') 10, DeleteOp ''A'' 20] exStale))
   \<and> totalMembers (stats (newMemStorage 0)) = length (getAllMembers (newMemStorage 0))
   \<and> totalMembers (stats (applyOps [CreateOp (exInsert ''A'') 10] (newMemStorage 0)))
       = length (getAllMembers (applyOps [CreateOp (exInsert ''A'') 10] (newMemStorage 0)))"
proof -
  have h: "mutates [DeleteOp ''ghost'' 5, CreateOp (exInsert ''A'') 10, DeleteOp ''A'' 20] exStale"
    by simp
  have n: "totalMembers (stats exStale) \<noteq> length (getAllMembers exStale)"
    by (simp add: exStale_def storage_defs)
  have i: "totalMembers (stats (newMemStorage 0)) = length (getAllMembers (newMemStorage 0))"
    by (simp add: storage_defs)
  from totalMembers_after_ops [where s = exStale
         and ops = "[DeleteOp ''ghost'' 5, CreateOp (exInsert ''A'') 10, DeleteOp ''A'' 20]"]
       totalMembers_after_ops [where s = "newMemStorage 0" and ops = "[CreateOp (exInsert ''A'') 10]"] h n i
  show ?thesis by blast
qed

text \<open>
  Claim C7 as stated, from any state, fails: \<open>deleteMember\<close> of an absent id does
  not recompute, so a count that was wrong at the start stays wrong.
\<close>

theorem stale_count_survives_noop_delete:
  "totalMembers (stats (applyOps [DeleteOp ''ghost'' 1000] exStale)) = 5
   \<and> length (getAllMembers (applyOps [DeleteOp ''ghost'' 1000] exStale)) = 0"
  by (simp add: exStale_def storage_defs)

section \<open>Setting a balance\<close>

text \<open>
  Claim C8, as the code has it. The sign check is the schema of
  \<open>PUT /api/members/:id/cash\<close>: the route answers a negative amount with 400 and
  leaves the store as it was. For an amount the route accepts that is a whole
  number the \<open>integer\<close> column can hold (0 to 2147483647), a stored member and a
  reachable database, the route answers with the updated record and the member's
  balance afterwards is exactly that amount, whatever it was before. The storage
  method \<open>updateMemberCash\<close> checks no sign: it stores any whole number of 32 bits,
  negative ones too.
\<close>

theorem setBalance_route:
  "(q < 0 \<longrightarrow> putMemberCash i (Num (Finite q)) outage now db = (BadRequest400, db))
   \<and> putMemberCash i (Num NegInfinity) outage now db = (BadRequest400, db)
   \<and> (0 \<le> z \<and> z \<le> 2147483647 \<and> outage \<noteq> Some 0
        \<and> find (\<lambda>m. mid m = i) (discord_members db) = Some m \<longrightarrow>
        fst (putMemberCash i (Num (Finite (of_int z))) outage now db)
          = Ok200 (m\<lparr>cash := z, lastSeen := Some now\<rparr>)
        \<and> find (\<lambda>m. mid m = i)
            (discord_members (snd (putMemberCash i (Num (Finite (of_int z))) outage now db)))
          = Some (m\<lparr>cash := z, lastSeen := Some now\<rparr>))
   \<and> (int4 z \<and> outage \<noteq> Some 0
        \<and> find (\<lambda>m. mid m = i) (discord_members db) = Some m \<longrightarrow>
        fst (updateMemberCashDb i (Finite (of_int z)) now outage db)
          = Inr (Some (m\<lparr>cash := z, lastSeen := Some now\<rparr>)))"
proof -
  have a: "putMemberCash i (Num (Finite q)) outage now db = (BadRequest400, db)" if "q < 0"
    using that by (simp add: putMemberCash_def updateCashSchema_def)
  have a': "putMemberCash i (Num NegInfinity) outage now db = (BadRequest400, db)"
    by (simp add: putMemberCash_def updateCashSchema_def)
  have b: "fst (putMemberCash i (Num (Finite (of_int z))) outage now db)
          = Ok200 (m\<lparr>cash := z, lastSeen := Some now\<rparr>)
        \<and> find (\<lambda>m. mid m = i)
            (discord_members (snd (putMemberCash i (Num (Finite (of_int z))) outage now db)))
          = Some (m\<lparr>cash := z, lastSeen := Some now\<rparr>)"
    if "0 \<le> z" "z \<le> 2147483647" "outage \<noteq> Some 0"
       "find (\<lambda>m. mid m = i) (discord_members db) = Some m"
  proof -
    from that have i4: "int4 z" by (simp add: int4_def)
    obtain r l d where u: "updateMemberCashDb i (Finite (of_int z)) now outage db = (r, l, d)"
      by (rule prod_cases3)
    from updateMemberCashDb_stored [OF i4 that(3,4), of now]
    have "r = Inr (Some (m\<lparr>cash := z, lastSeen := Some now\<rparr>))"
      and "find (\<lambda>m. mid m = i) (discord_members d) = Some (m\<lparr>cash := z, lastSeen := Some now\<rparr>)"
      by (simp_all add: u)
    with that(1) show ?thesis
      by (simp add: putMemberCash_def updateCashSchema_def u)
  qed
  have c: "fst (updateMemberCashDb i (Finite (of_int z)) now outage db)
          = Inr (Some (m\<lparr>cash := z, lastSeen := Some now\<rparr>))"
    if "int4 z" "outage \<noteq> Some 0" "find (\<lambda>m. mid m = i) (discord_members db) = Some m"
    using that by (rule updateMemberCashDb_stored(1))
  from a a' b c show ?thesis by blast
qed

theorem setBalance_route_witness:
  "(- 5 :: rat) < 0
   \<and> putMemberCash ''A'' (Num (Finite (- 5))) None 1000 exDb = (BadRequest400, exDb)
   \<and> (0 :: int) \<le> 7 \<and> (7 :: int) \<le> 2147483647 \<and> (None :: nat option) \<noteq> Some 0
   \<and> find (\<lambda>m. mid m = ''A'') (discord_members exDb) = Some (newRow (exInsert ''A'') 0)
   \<and> fst (putMemberCash ''A'' (Num (Finite (of_int 7))) None 1000 exDb)
       = Ok200 ((newRow (exInsert ''A'') 0)\<lparr>cash := 7, lastSeen := Some 1000\<rparr>)
   \<and> find (\<lambda>m. mid m = ''A'')
        (discord_members (snd (putMemberCash ''A'' (Num (Finite (of_int 7))) None 1000 exDb)))
       = Some ((newRow (exInsert ''A'') 0)\<lparr>cash := 7, lastSeen := Some 1000\<rparr>)
   \<and> int4 (- 5)
   \<and> fst (updateMemberCashDb ''A'' (Finite (of_int (- 5))) 1000 None exDb)
       = Inr (Some ((newRow (exInsert ''A'') 0)\<lparr>cash := - 5, lastSeen := Some 1000\<rparr>))"
proof -
  have n: "(- 5 :: rat) < 0" and p: "(0 :: int) \<le> 7" "(7 :: int) \<le> 2147483647"
    and o: "(None :: nat option) \<noteq> Some 0" and i: "int4 (- 5)"
    by (simp_all add: int4_def)
  note g = exDb_find
  from setBalance_route [where q = "- 5" and i = "''A''" and outage = None and now = 1000
         and db = exDb and z = 7 and m = "newRow (exInsert ''A'') 0"]
       setBalance_route [where i = "''A''" and outage = None and now = 1000
         and db = exDb and z = "- 5" and m = "newRow (exInsert ''A'') 0"]
       n p o i g
  show ?thesis by blast
qed

text \<open>
  Claim C8 as stated fails. \<open>updateMemberCash\<close> with the amount -5 rejects nothing
  and stores -5. And the amounts 2147483648 and 0.5 pass the schema of the route,
  but the \<open>integer\<close> column takes neither: the handler answers 500 and the balance
  stays 0.
\<close>

theorem storage_takes_negative_route_takes_unstorable:
  "fst (updateMemberCashDb ''A'' (Finite (- 5)) 1000 None exDb)
     = Inr (Some ((newRow (exInsert ''A'') 0)\<lparr>cash := - 5, lastSeen := Some 1000\<rparr>))
   \<and> map cash (discord_members (snd (snd (updateMemberCashDb ''A'' (Finite (- 5)) 1000 None exDb))))
     = [- 5]
   \<and> updateCashSchema (Num (Finite 2147483648)) = Some (Finite 2147483648)
   \<and> putMemberCash ''A'' (Num (Finite 2147483648)) None 1000 exDb = (InternalError500, exDb)
   \<and> updateCashSchema (Num (Finite (1 / 2))) = Some (Finite (1 / 2))
   \<and> putMemberCash ''A'' (Num (Finite (1 / 2))) None 1000 exDb = (InternalError500, exDb)
   \<and> map cash (discord_members exDb) = [0]"
proof -
  have "\<lfloor>1 / 2 :: rat\<rfloor> = 0" by (rule floor_unique) simp_all
  then show ?thesis
    by (simp add: updateMemberCashDb_def putMemberCash_def updateCashSchema_def exDb_rows
        exInsert_def newRow_def int4_def Let_def)
qed

section \<open>Blocked-word matching\<close>

text \<open>
  Claim C9. For whatever function the engine's \<open>toLowerCase\<close> is, the filter
  matches a message exactly when the lower-cased content contains the lower-cased
  word of some blocked-word entry as a contiguous substring, with no tokenization.
  On ASCII texts, where \<open>toLowerCase\<close> folds \<open>A\<close>..\<open>Z\<close> and nothing else, this is
  case-insensitive substring containment: the filter matches exactly when some
  contiguous part of the content is a blocked word letter by letter, capitals and
  small letters taken as the same. With \<open>ass\<close> among the blocked words,
  \<open>mass production\<close> and \<open>ASSIGN\<close> match.
\<close>

theorem blocked_term_substring_match:
  "(containsBlockedWord toLowerCase ws msg \<longleftrightarrow>
      (\<exists>bw \<in> set ws. \<exists>p q. toLowerCase msg = p @ toLowerCase (word bw) @ q))
   \<and> (foldsAscii toLowerCase \<and> isAscii msg \<and> (\<forall>bw \<in> set ws. isAscii (word bw)) \<longrightarrow>
        (containsBlockedWord toLowerCase ws msg \<longleftrightarrow>
           (\<exists>bw \<in> set ws. occursIgnoringCase (word bw) msg)))
   \<and> (foldsAscii toLowerCase \<and> (\<exists>bw \<in> set ws. word bw = units ''ass'') \<longrightarrow>
        containsBlockedWord toLowerCase ws (units ''mass production'')
        \<and> containsBlockedWord toLowerCase ws (units ''ASSIGN''))"
proof -
  have b: "containsBlockedWord toLowerCase ws msg \<longleftrightarrow>
           (\<exists>bw \<in> set ws. occursIgnoringCase (word bw) msg)"
    if "foldsAscii toLowerCase" "isAscii msg" "\<forall>bw \<in> set ws. isAscii (word bw)"
    using that by (simp add: containsBlockedWord_iff ascii_match)
  have c: "containsBlockedWord toLowerCase ws (units ''mass production'')
        \<and> containsBlockedWord toLowerCase ws (units ''ASSIGN'')"
    if f: "foldsAscii toLowerCase" and "bw \<in> set ws" and "word bw = units ''ass''" for bw
  proof -
    from f have "toLowerCase (units ''ass'') = units ''ass''"
      and "toLowerCase (units ''mass production'') = units ''m'' @ units ''ass'' @ units '' production''"
      and "toLowerCase (units ''ASSIGN'') = [] @ units ''ass'' @ units ''ign''"
      using units_ascii_examples by (simp_all add: foldsAscii_def)
    with that(2,3) show ?thesis
      unfolding containsBlockedWord_iff by metis
  qed
  from b c show ?thesis
    by (auto simp: containsBlockedWord_iff)
qed

theorem blocked_term_substring_match_witness:
  "foldsAscii exLower
   \<and> isAscii (units ''ASSIGN'')
   \<and> list_all (\<lambda>bw. isAscii (word bw)) (blocked_words exWordsDb)
   \<and> (\<exists>bw \<in> set (blocked_words exWordsDb). word bw = units ''ass'')
   \<and> containsBlockedWord exLower (blocked_words exWordsDb) (units ''mass production'')
   \<and> containsBlockedWord exLower (blocked_words exWordsDb) (units ''ASSIGN'')
   \<and> (\<exists>bw \<in> set (blocked_words exWordsDb). occursIgnoringCase (word bw) (units ''ASSIGN''))"
proof -
  note f = exLower_folds
  have a: "isAscii (units ''ASSIGN'')" by (rule units_ascii_examples)
  have w: "list_all (\<lambda>bw. isAscii (word bw)) (blocked_words exWordsDb)"
    by (simp add: exWordsDb_rows units_ascii_examples)
  then have w': "\<forall>bw \<in> set (blocked_words exWordsDb). isAscii (word bw)"
    by (simp add: list_all_iff)
  have e: "\<exists>bw \<in> set (blocked_words exWordsDb). word bw = units ''ass''"
    by (simp add: exWordsDb_rows)
  from blocked_term_substring_match [where toLowerCase = exLower
         and ws = "blocked_words exWordsDb" and msg = "units ''ASSIGN''"] f a w w' e
  show ?thesis by blast
qed

section \<open>Balance and tag operations refresh the last activity\<close>

text \<open>
  Claim C10. On a present member, each of \<open>updateMemberCash\<close>, \<open>addMemberCash\<close>,
  \<open>addMemberRole\<close> and \<open>removeMemberRole\<close> stores the member's record with only the
  targeted field (\<open>cash\<close> or \<open>roles\<close>) and \<open>lastSeen\<close> changed, \<open>lastSeen\<close> being the
  current time, and changes nothing else in the store; the stored record passes the
  activity filter of \<open>updateMemberCount\<close> at every instant before \<open>now\<close> plus
  24 hours, so a recompute in that window counts the member as active today.
\<close>

theorem cash_and_role_ops_touch_lastSeen:
  assumes "getMember i s = Some m"
  shows "refreshes now i (m\<lparr>cash := a, lastSeen := Some now\<rparr>) s (updateMemberCash i a now s)
       \<and> refreshes now i (m\<lparr>cash := cash m + a, lastSeen := Some now\<rparr>) s (addMemberCash i a now s)
       \<and> refreshes now i
           (m\<lparr>roles := (if r \<in> set (roles m) then roles m else roles m @ [r]),
              lastSeen := Some now\<rparr>) s (addMemberRole i r now s)
       \<and> refreshes now i (m\<lparr>roles := filter (\<lambda>x. x \<noteq> r) (roles m), lastSeen := Some now\<rparr>) s
           (removeMemberRole i r now s)"
proof -
  from assms have g: "map_of (members s) i = Some m" by (simp add: getMember_def)
  show ?thesis
    by (simp add: updateMemberCash_def addMemberCash_def addMemberRole_def removeMemberRole_def
        g Let_def refreshes_update [OF g])
qed

theorem cash_and_role_ops_touch_lastSeen_witness:
  "getMember ''A'' exStore = Some (newMember (exInsert ''A'') 0)
   \<and> fst (updateMemberCash ''A'' 7 1000 exStore)
       = Some ((newMember (exInsert ''A'') 0)\<lparr>cash := 7, lastSeen := Some 1000\<rparr>)
   \<and> getMember ''A'' (snd (updateMemberCash ''A'' 7 1000 exStore))
       = Some ((newMember (exInsert ''A'') 0)\<lparr>cash := 7, lastSeen := Some 1000\<rparr>)
   \<and> (newMember (exInsert ''A'') 0)\<lparr>cash := 7, lastSeen := Some 1000\<rparr>
       \<in> set (filter (seenSince (dayAgo 86400999))
                (getAllMembers (snd (updateMemberCash ''A'' 7 1000 exStore))))
   \<and> stats (snd (removeMemberRole ''A'' ''r1'' 1000 exStore)) = stats exStore"
proof -
  have g: "getMember ''A'' exStore = Some (newMember (exInsert ''A'') 0)"
    by (simp add: example_defs storage_defs)
  have t: "(86400999 :: int) < 1000 + 86400000" by simp
  from cash_and_role_ops_touch_lastSeen [OF g, where now = 1000 and a = 7 and r = "''r1''"]
  have "refreshes 1000 ''A'' ((newMember (exInsert ''A'') 0)\<lparr>cash := 7, lastSeen := Some 1000\<rparr>)
          exStore (updateMemberCash ''A'' 7 1000 exStore)"
    and "refreshes 1000 ''A''
          ((newMember (exInsert ''A'') 0)
             \<lparr>roles := filter (\<lambda>x. x \<noteq> ''r1'') (roles (newMember (exInsert ''A'') 0)),
              lastSeen := Some 1000\<rparr>)
          exStore (removeMemberRole ''A'' ''r1'' 1000 exStore)"
    by blast+
  then show ?thesis
    unfolding refreshes_def using g t by blast
qed

end
